theory Spec2Isabelle
  imports Complex_Main "HOL-Library.Word" "HOL-Library.Multiset"
begin

section \<open>Deterministic sequence generator\<close>

text \<open>
  \<^verbatim>\<open>tabular_loader.js\<close>, \<^verbatim>\<open>shuffleWithSeed\<close>:
  \<^verbatim>\<open>function rnd(){ seed=(seed*1664525+1013904223)>>>0; return seed/4294967296; }\<close>

  The closure variable \<^verbatim>\<open>seed\<close> is the generator state. For a state below \<open>2^32\<close> the
  product and the sum stay below \<open>2^53\<close>, so the double arithmetic is exact and
  \<^verbatim>\<open>>>>0\<close> is reduction modulo \<open>2^32\<close>: the state is a 32-bit word. The returned
  value is the new state divided by \<open>2^32\<close>, exact as well. Finite JavaScript numbers
  are modelled as reals throughout; rounding is not modelled.
\<close>

type_synonym u32 = "32 word"

definition rnd :: "u32 \<Rightarrow> real \<times> u32" where
  "rnd seed = (let seed' = seed * 1664525 + 1013904223
               in (real (unat seed') / 4294967296, seed'))"

text \<open>\<^verbatim>\<open>arr.map(x=>[rnd(),x])\<close>: one draw per element, left to right, the state threaded.\<close>

fun drawKeys :: "u32 \<Rightarrow> 'a list \<Rightarrow> (real \<times> 'a) list" where
  "drawKeys seed [] = []"
| "drawKeys seed (x # xs) = (case rnd seed of (v, seed') \<Rightarrow> (v, x) # drawKeys seed' xs)"

text \<open>
  \<^verbatim>\<open>.sort((a,b)=>a[0]-b[0]).map(p=>p[1])\<close>: \<^verbatim>\<open>Array.prototype.sort\<close> is stable, and so is
  \<^const>\<open>sort_key\<close>.
\<close>

definition shuffleWithSeed :: "'a list \<Rightarrow> u32 \<Rightarrow> 'a list" where
  "shuffleWithSeed arr seed = map snd (sort_key fst (drawKeys seed arr))"

section \<open>Rows, cells and the stratified split\<close>

text \<open>
  A row is the object \<^verbatim>\<open>parseCarsCSV\<close> builds: column name to cell string. A column the
  row does not have reads as \<^verbatim>\<open>undefined\<close>, here \<open>None\<close>. Objects used as dictionaries
  are modelled by their own properties; category strings that name a member of
  \<^verbatim>\<open>Object.prototype\<close> are outside the model.
\<close>

type_synonym row = "string \<rightharpoonup> string"

text \<open>\<^verbatim>\<open>(r[key] && r[key] !== '?') ? r[key] : '__NA__'\<close>: undefined and the empty string are falsy.\<close>

definition catKey :: "row \<Rightarrow> string \<Rightarrow> string" where
  "catKey r key = (case r key of None \<Rightarrow> ''__NA__''
                   | Some v \<Rightarrow> if v = [] \<or> v = ''?'' then ''__NA__'' else v)"

text \<open>
  \<^verbatim>\<open>if (!groups.has(k)) groups.set(k, []); groups.get(k).push(i);\<close> on a \<^verbatim>\<open>Map\<close>, which
  iterates in insertion order: an association list, a new key appended at the end.
\<close>

fun groupPush :: "string \<Rightarrow> nat \<Rightarrow> (string \<times> nat list) list \<Rightarrow> (string \<times> nat list) list" where
  "groupPush k i [] = [(k, [i])]"
| "groupPush k i ((k', idxs) # gs) =
     (if k' = k then (k', idxs @ [i]) # gs else (k', idxs) # groupPush k i gs)"

definition groupRows :: "row list \<Rightarrow> string \<Rightarrow> (string \<times> nat list) list" where
  "groupRows rows key =
     foldl (\<lambda>gs (i, r). groupPush (catKey r key) i gs) [] (zip [0..<length rows] rows)"

record split_result =
  train :: "nat list"
  test :: "nat list"

text \<open>\<^verbatim>\<open>Math.max(1, Math.floor(s.length*frac))\<close>\<close>

definition cutOf :: "nat \<Rightarrow> real \<Rightarrow> nat" where
  "cutOf n fr = nat (max 1 \<lfloor>real n * fr\<rfloor>)"

text \<open>The body of \<^verbatim>\<open>for (const idxs of groups.values())\<close>; every group is shuffled with the same seed.\<close>

definition splitStep :: "real \<Rightarrow> u32 \<Rightarrow> split_result \<Rightarrow> nat list \<Rightarrow> split_result" where
  "splitStep fr seed acc idxs =
     (let s = shuffleWithSeed idxs seed;
          cut = cutOf (length s) fr
      in \<lparr>train = train acc @ take cut s, test = test acc @ drop cut s\<rparr>)"

definition stratifiedSplit :: "row list \<Rightarrow> real \<Rightarrow> u32 \<Rightarrow> string \<Rightarrow> split_result" where
  "stratifiedSplit rows fr seed key =
     foldl (splitStep fr seed) \<lparr>train = [], test = []\<rparr> (map snd (groupRows rows key))"

text \<open>What one group hands to each side: the first \<open>cut\<close> shuffled indices, and the rest.\<close>

definition trainPart :: "real \<Rightarrow> u32 \<Rightarrow> nat list \<Rightarrow> nat list" where
  "trainPart fr seed g = take (cutOf (length g) fr) (shuffleWithSeed g seed)"

definition testPart :: "real \<Rightarrow> u32 \<Rightarrow> nat list \<Rightarrow> nat list" where
  "testPart fr seed g = drop (cutOf (length g) fr) (shuffleWithSeed g seed)"


section \<open>Helpers of the loader\<close>

text \<open>
  \<^verbatim>\<open>Number\<close> is the language's own conversion, not code of the repository: it is the
  parameter \<open>toNumber\<close>, giving the finite value of a cell string, or \<open>None\<close> where
  \<^verbatim>\<open>Number(v)\<close> is \<^verbatim>\<open>NaN\<close> or infinite. A \<^verbatim>\<open>NaN\<close> in an array is \<open>None\<close> as well.

  \<^verbatim>\<open>function isNumeric(v){ if (v==null || v==='' || v==='?') return false;
     const x=Number(v); return Number.isFinite(x); }\<close>
\<close>

definition isNumeric :: "(string \<Rightarrow> real option) \<Rightarrow> string option \<Rightarrow> bool" where
  "isNumeric toNumber v =
     (case v of None \<Rightarrow> False | Some s \<Rightarrow> s \<noteq> [] \<and> s \<noteq> ''?'' \<and> toNumber s \<noteq> None)"

text \<open>\<^verbatim>\<open>isNumeric(v) ? Number(v) : NaN\<close>\<close>

definition numberOrNaN :: "(string \<Rightarrow> real option) \<Rightarrow> string option \<Rightarrow> real option" where
  "numberOrNaN toNumber v =
     (case v of None \<Rightarrow> None | Some s \<Rightarrow> if isNumeric toNumber v then toNumber s else None)"

text \<open>\<^verbatim>\<open>.filter(Number.isFinite)\<close>\<close>

fun finites :: "real option list \<Rightarrow> real list" where
  "finites [] = []"
| "finites (None # xs) = finites xs"
| "finites (Some x # xs) = x # finites xs"

text \<open>
  The imputation median of a sorted array:
  \<^verbatim>\<open>vals.length? (vals.length%2? vals[k] : (vals[k-1]+vals[k])/2) : 0\<close> with
  \<^verbatim>\<open>k = Math.floor(vals.length/2)\<close>.
\<close>

definition medianOrZero :: "real list \<Rightarrow> real" where
  "medianOrZero vals =
     (let k = length vals div 2
      in if vals = [] then 0
         else if odd (length vals) then vals ! k
         else (vals ! (k - 1) + vals ! k) / 2)"

record stat =
  median :: "real option"
  scale :: real

text \<open>
  \<^verbatim>\<open>robustStats\<close>. On the empty array \<^verbatim>\<open>s[mid-1]+s[mid]\<close> is \<^verbatim>\<open>NaN\<close>, and so are the median
  and the MAD; \<^verbatim>\<open>(1.4826*mad) || 1\<close> is then 1, as it is when the product is 0.
\<close>

definition robustStats :: "real list \<Rightarrow> stat" where
  "robustStats arr =
     (let s = sort arr;
          mid = length s div 2
      in if s = [] then \<lparr>median = None, scale = 1\<rparr>
         else
           let med = (if odd (length s) then s ! mid else (s ! (mid - 1) + s ! mid) / 2);
               absDev = sort (map (\<lambda>x. \<bar>x - med\<bar>) s);
               mad = (if odd (length absDev) then absDev ! mid
                      else (absDev ! (mid - 1) + absDev ! mid) / 2);
               sc = 14826 / 10000 * mad
           in \<lparr>median = Some med, scale = (if sc = 0 then 1 else sc)\<rparr>)"

text \<open>
  \<^verbatim>\<open>quantile\<close>: \<^verbatim>\<open>s[k]+d*((s[k+1]??s[k]) - s[k])\<close> with \<^verbatim>\<open>p=(s.length-1)*q\<close>,
  \<^verbatim>\<open>k=Math.floor(p)\<close>, \<^verbatim>\<open>d=p-k\<close>. An index outside the array reads \<^verbatim>\<open>undefined\<close>: for
  \<^verbatim>\<open>s[k]\<close> the result is \<^verbatim>\<open>NaN\<close>, for \<^verbatim>\<open>s[k+1]\<close> the \<^verbatim>\<open>??\<close> takes \<^verbatim>\<open>s[k]\<close>.
\<close>

definition quantile :: "real list \<Rightarrow> real \<Rightarrow> real option" where
  "quantile a q =
     (let s = sort a;
          p = (real (length s) - 1) * q;
          k = \<lfloor>p\<rfloor>;
          d = p - of_int k
      in if 0 \<le> k \<and> nat k < length s
         then Some (s ! nat k
                    + d * ((if nat k + 1 < length s then s ! (nat k + 1) else s ! nat k) - s ! nat k))
         else None)"

text \<open>\<^verbatim>\<open>Math.min(hi, Math.max(lo, v))\<close>, \<^verbatim>\<open>NaN\<close> when a bound is \<^verbatim>\<open>NaN\<close>.\<close>

definition clip :: "real \<Rightarrow> real option \<Rightarrow> real option \<Rightarrow> real option" where
  "clip v lo hi = (case lo of None \<Rightarrow> None
                   | Some l \<Rightarrow> (case hi of None \<Rightarrow> None | Some h \<Rightarrow> Some (min h (max l v))))"

text \<open>\<^verbatim>\<open>Math.log1p\<close>: minus infinity at \<open>-1\<close> and \<^verbatim>\<open>NaN\<close> below, neither finite.\<close>

definition log1p :: "real \<Rightarrow> real option" where
  "log1p x = (if - 1 < x then Some (ln (1 + x)) else None)"

definition smoothed :: "real \<Rightarrow> real \<Rightarrow> real \<Rightarrow> real \<Rightarrow> real" where
  "smoothed sm cnt base alpha = (sm + alpha * base) / (cnt + alpha)"

section \<open>The schema\<close>

record catMap =
  map' :: "string \<rightharpoonup> nat"
  size' :: nat

record seed_set =
  split :: u32
  kfold :: u32
  trainOrder :: u32

text \<open>\<open>seeds\<close> is the property \<^verbatim>\<open>__seeds\<close>; a property that is not set is \<open>None\<close>.\<close>

record schema =
  numCols :: "string list"
  catCols :: "string list"
  catMaps :: "string \<rightharpoonup> catMap"
  seeds :: "seed_set option"
  numInputDim :: "nat option"

datatype js_error = TypeError | Error string

text \<open>\<^verbatim>\<open>schema.__seeds ?? { split:42, kfold:1337, trainOrder:777 }\<close>\<close>

definition seedsOf :: "schema \<Rightarrow> seed_set" where
  "seedsOf sch = (case seeds sch of None \<Rightarrow> \<lparr>split = 42, kfold = 1337, trainOrder = 777\<rparr>
                  | Some sd \<Rightarrow> sd)"

section \<open>\<^verbatim>\<open>buildTabularTensors\<close>, stage by stage\<close>

text \<open>
  Each local constant of \<^verbatim>\<open>buildTabularTensors(rows, schema, trainFrac)\<close> is a definition
  of the same name, a function of the inputs it is computed from.
\<close>

subsection \<open>1) stratified split\<close>

definition trIdx :: "row list \<Rightarrow> schema \<Rightarrow> real \<Rightarrow> nat list" where
  "trIdx rows sch fr = train (stratifiedSplit rows fr (split (seedsOf sch)) ''make'')"

definition teIdx :: "row list \<Rightarrow> schema \<Rightarrow> real \<Rightarrow> nat list" where
  "teIdx rows sch fr = test (stratifiedSplit rows fr (split (seedsOf sch)) ''make'')"

subsection \<open>2) numeric matrix and median imputation\<close>

definition rawNum :: "(string \<Rightarrow> real option) \<Rightarrow> row list \<Rightarrow> schema \<Rightarrow> real option list list" where
  "rawNum toNumber rows sch = map (\<lambda>r. map (\<lambda>h. numberOrNaN toNumber (r h)) (numCols sch)) rows"

text \<open>The column is read from \<^verbatim>\<open>rawNum\<close>, that is from every row.\<close>

definition medians :: "(string \<Rightarrow> real option) \<Rightarrow> row list \<Rightarrow> schema \<Rightarrow> real list" where
  "medians toNumber rows sch =
     map (\<lambda>j. medianOrZero (sort (finites (map (\<lambda>row. row ! j) (rawNum toNumber rows sch)))))
         [0..<length (numCols sch)]"

definition Xnum :: "(string \<Rightarrow> real option) \<Rightarrow> row list \<Rightarrow> schema \<Rightarrow> real list list" where
  "Xnum toNumber rows sch =
     map (\<lambda>row. map (\<lambda>(j, x). case x of Some v \<Rightarrow> v | None \<Rightarrow> medians toNumber rows sch ! j)
                     (zip [0..<length row] row))
         (rawNum toNumber rows sch)"

subsection \<open>3) categorical indices\<close>

text \<open>
  \<^verbatim>\<open>schema.catMaps[h].map[v] ?? 0\<close> runs once per row: with a row to read and no
  \<^verbatim>\<open>catMaps[h]\<close>, reading \<^verbatim>\<open>.map\<close> of \<^verbatim>\<open>undefined\<close> throws a \<^verbatim>\<open>TypeError\<close>.
\<close>

definition Xcats :: "row list \<Rightarrow> schema \<Rightarrow> js_error + nat list list" where
  "Xcats rows sch =
     (if rows \<noteq> [] \<and> list_ex (\<lambda>h. catMaps sch h = None) (catCols sch) then Inl TypeError
      else Inr (map (\<lambda>h. map (\<lambda>r. case catMaps sch h of None \<Rightarrow> 0
                                     | Some cm \<Rightarrow> (case map' cm (catKey r h) of None \<Rightarrow> 0 | Some c \<Rightarrow> c))
                              rows)
                    (catCols sch)))"

subsection \<open>4) price winsorization on train, and log1p\<close>

definition pricesRaw :: "(string \<Rightarrow> real option) \<Rightarrow> row list \<Rightarrow> real option list" where
  "pricesRaw toNumber rows = map (\<lambda>r. numberOrNaN toNumber (r ''price'')) rows"

definition trainPrices :: "(string \<Rightarrow> real option) \<Rightarrow> row list \<Rightarrow> schema \<Rightarrow> real \<Rightarrow> real list" where
  "trainPrices toNumber rows sch fr =
     finites (map (\<lambda>i. pricesRaw toNumber rows ! i) (trIdx rows sch fr))"

definition pLo :: "(string \<Rightarrow> real option) \<Rightarrow> row list \<Rightarrow> schema \<Rightarrow> real \<Rightarrow> real option" where
  "pLo toNumber rows sch fr = quantile (trainPrices toNumber rows sch fr) (5 / 100)"

definition pHi :: "(string \<Rightarrow> real option) \<Rightarrow> row list \<Rightarrow> schema \<Rightarrow> real \<Rightarrow> real option" where
  "pHi toNumber rows sch fr = quantile (trainPrices toNumber rows sch fr) (95 / 100)"

definition pricesClipped ::
  "(string \<Rightarrow> real option) \<Rightarrow> row list \<Rightarrow> schema \<Rightarrow> real \<Rightarrow> real option list" where
  "pricesClipped toNumber rows sch fr =
     map (\<lambda>v. case v of None \<Rightarrow> None
               | Some x \<Rightarrow> clip x (pLo toNumber rows sch fr) (pHi toNumber rows sch fr))
         (pricesRaw toNumber rows)"

definition yLog :: "(string \<Rightarrow> real option) \<Rightarrow> row list \<Rightarrow> schema \<Rightarrow> real \<Rightarrow> real option list" where
  "yLog toNumber rows sch fr =
     map (\<lambda>v. case v of None \<Rightarrow> None | Some x \<Rightarrow> log1p x) (pricesClipped toNumber rows sch fr)"

subsection \<open>5) K-fold target encoding\<close>

definition encCols :: "string list" where
  "encCols = [''make'', ''body-style'', ''drive-wheels'', ''engine-type'', ''fuel-system'',
              ''aspiration'', ''num-of-doors'']"

definition K :: nat where
  "K = 5"

text \<open>\<^verbatim>\<open>s.forEach((i,k)=> arr[k%K].push(i))\<close> on \<^verbatim>\<open>K\<close> empty arrays.\<close>

definition deal :: "nat list \<Rightarrow> nat list list" where
  "deal s = foldl (\<lambda>arr (k, i). arr[k mod K := arr ! (k mod K) @ [i]]) (replicate K [])
                  (zip [0..<length s] s)"

definition folds :: "row list \<Rightarrow> schema \<Rightarrow> real \<Rightarrow> nat list list" where
  "folds rows sch fr = deal (shuffleWithSeed (trIdx rows sch fr) (kfold (seedsOf sch)))"

text \<open>\<^verbatim>\<open>folds.forEach((a,f)=>a.forEach(i=>foldOf.set(i,f)))\<close>\<close>

definition foldMapOf :: "nat list list \<Rightarrow> (nat \<rightharpoonup> nat)" where
  "foldMapOf fs = foldl (\<lambda>m (f, a). foldl (\<lambda>m i. m(i \<mapsto> f)) m a) Map.empty
                        (zip [0..<length fs] fs)"

definition foldOf :: "row list \<Rightarrow> schema \<Rightarrow> real \<Rightarrow> (nat \<rightharpoonup> nat)" where
  "foldOf rows sch fr = foldMapOf (folds rows sch fr)"

text \<open>\<^verbatim>\<open>trainPrices.reduce((a,b)=>a+b,0)/Math.max(1,trainPrices.length)\<close>\<close>

definition meanOf :: "real list \<Rightarrow> real" where
  "meanOf ps = sum_list ps / real (max 1 (length ps))"

definition globalMean :: "(string \<Rightarrow> real option) \<Rightarrow> row list \<Rightarrow> schema \<Rightarrow> real \<Rightarrow> real" where
  "globalMean toNumber rows sch fr = meanOf (trainPrices toNumber rows sch fr)"

text \<open>
  One round of the loop over the rows of a fit set, on the pair of \<^verbatim>\<open>Map\<close>s
  \<^verbatim>\<open>(sums, counts)\<close>:
  \<^verbatim>\<open>const yv = pricesRaw[i]; if (!Number.isFinite(yv)) continue;
  sums.set(key,(sums.get(key)||0)+yv); counts.set(key,(counts.get(key)||0)+1);\<close>
\<close>

definition teStep ::
  "row list \<Rightarrow> real option list \<Rightarrow> string \<Rightarrow> (string \<rightharpoonup> real) \<times> (string \<rightharpoonup> nat) \<Rightarrow> nat
     \<Rightarrow> (string \<rightharpoonup> real) \<times> (string \<rightharpoonup> nat)" where
  "teStep rows prices c acc i =
     (let key = catKey (rows ! i) c
      in case prices ! i of None \<Rightarrow> acc
         | Some yv \<Rightarrow>
             (case acc of (sums', counts') \<Rightarrow>
                (sums'(key \<mapsto> (case sums' key of None \<Rightarrow> 0 | Some sm \<Rightarrow> sm) + yv),
                 counts'(key \<mapsto> (case counts' key of None \<Rightarrow> 0 | Some n \<Rightarrow> n) + 1))))"

definition teSums ::
  "row list \<Rightarrow> real option list \<Rightarrow> string \<Rightarrow> nat list \<Rightarrow> (string \<rightharpoonup> real) \<times> (string \<rightharpoonup> nat)" where
  "teSums rows prices c idxs = foldl (teStep rows prices c) (Map.empty, Map.empty) idxs"

text \<open>
  \<^verbatim>\<open>const m={ '__UNK__': globalMean };
  for (const [k,sum] of sums) m[k]=smoothed(sum, counts.get(k)||0, globalMean, 10);\<close>
  Every key of \<^verbatim>\<open>sums\<close> is assigned once, so the order of the iteration does not show in
  \<^verbatim>\<open>m\<close>; a key \<^verbatim>\<open>'__UNK__'\<close> of \<^verbatim>\<open>sums\<close> overwrites the initial entry.
\<close>

definition teMap :: "real \<Rightarrow> (string \<rightharpoonup> real) \<times> (string \<rightharpoonup> nat) \<Rightarrow> (string \<rightharpoonup> real)" where
  "teMap gm acc =
     (case acc of (sums', counts') \<Rightarrow>
        (\<lambda>k. case sums' k of
                Some sm \<Rightarrow> Some (smoothed sm (real (case counts' k of None \<Rightarrow> 0 | Some n \<Rightarrow> n)) gm 10)
              | None \<Rightarrow> if k = ''__UNK__'' then Some gm else None))"

text \<open>\<^verbatim>\<open>encMapsByFold[c][f]\<close>, fit on \<^verbatim>\<open>trIdx.filter(i=> foldOf.get(i)!==f)\<close>.\<close>

definition encMapsByFold ::
  "(string \<Rightarrow> real option) \<Rightarrow> row list \<Rightarrow> schema \<Rightarrow> real \<Rightarrow> string \<Rightarrow> nat \<Rightarrow> (string \<rightharpoonup> real)" where
  "encMapsByFold toNumber rows sch fr c f =
     teMap (globalMean toNumber rows sch fr)
           (teSums rows (pricesRaw toNumber rows) c
                   (filter (\<lambda>i. foldOf rows sch fr i \<noteq> Some f) (trIdx rows sch fr)))"

definition fullMaps ::
  "(string \<Rightarrow> real option) \<Rightarrow> row list \<Rightarrow> schema \<Rightarrow> real \<Rightarrow> string \<Rightarrow> (string \<rightharpoonup> real)" where
  "fullMaps toNumber rows sch fr c =
     teMap (globalMean toNumber rows sch fr)
           (teSums rows (pricesRaw toNumber rows) c (trIdx rows sch fr))"

subsection \<open>6) target-encoded columns appended to the numeric matrix\<close>

text \<open>\<^verbatim>\<open>m[key] ?? m['__UNK__']\<close>; every map built by \<^const>\<open>teMap\<close> has the second entry.\<close>

definition lookupOrUnk :: "(string \<rightharpoonup> real) \<Rightarrow> string \<Rightarrow> real" where
  "lookupOrUnk m key = (case m key of Some v \<Rightarrow> v | None \<Rightarrow> the (m ''__UNK__''))"

definition encValue ::
  "(string \<Rightarrow> real option) \<Rightarrow> row list \<Rightarrow> schema \<Rightarrow> real \<Rightarrow> nat \<Rightarrow> string \<Rightarrow> real" where
  "encValue toNumber rows sch fr i col =
     (let key = catKey (rows ! i) col
      in case foldOf rows sch fr i of
           Some f \<Rightarrow> lookupOrUnk (encMapsByFold toNumber rows sch fr col f) key
         | None \<Rightarrow> lookupOrUnk (fullMaps toNumber rows sch fr col) key)"

definition XnumPlus :: "(string \<Rightarrow> real option) \<Rightarrow> row list \<Rightarrow> schema \<Rightarrow> real \<Rightarrow> real list list" where
  "XnumPlus toNumber rows sch fr =
     map (\<lambda>i. Xnum toNumber rows sch ! i @ map (encValue toNumber rows sch fr i) encCols)
         [0..<length rows]"

subsection \<open>7) robust scaling, fit on training rows\<close>

definition trainNum :: "(string \<Rightarrow> real option) \<Rightarrow> row list \<Rightarrow> schema \<Rightarrow> real \<Rightarrow> real list list" where
  "trainNum toNumber rows sch fr = map (\<lambda>i. XnumPlus toNumber rows sch fr ! i) (trIdx rows sch fr)"

text \<open>\<^verbatim>\<open>XnumPlus[0].map((_,j)=> robustStats(trainNum.map(r=> r[j])))\<close>, reached with a row 0 only.\<close>

definition stats :: "(string \<Rightarrow> real option) \<Rightarrow> row list \<Rightarrow> schema \<Rightarrow> real \<Rightarrow> stat list" where
  "stats toNumber rows sch fr =
     map (\<lambda>j. robustStats (map (\<lambda>r. r ! j) (trainNum toNumber rows sch fr)))
         [0..<length (XnumPlus toNumber rows sch fr ! 0)]"

text \<open>\<^verbatim>\<open>(x - stats[j].median) / stats[j].scale\<close>, \<^verbatim>\<open>NaN\<close> for a \<^verbatim>\<open>NaN\<close> median.\<close>

definition scaleBy :: "stat \<Rightarrow> real \<Rightarrow> real option" where
  "scaleBy st x = (case median st of None \<Rightarrow> None | Some m \<Rightarrow> Some ((x - m) / scale st))"

definition XnumScaled ::
  "(string \<Rightarrow> real option) \<Rightarrow> row list \<Rightarrow> schema \<Rightarrow> real \<Rightarrow> real option list list" where
  "XnumScaled toNumber rows sch fr =
     map (\<lambda>row. map (\<lambda>(j, x). scaleBy (stats toNumber rows sch fr ! j) x) (zip [0..<length row] row))
         (XnumPlus toNumber rows sch fr)"

subsection \<open>8) the final arrays\<close>

text \<open>\<^verbatim>\<open>yLog.map((v,i)=> Number.isFinite(v) ? i : -1).filter(i=> i>=0)\<close>\<close>

definition valid :: "(string \<Rightarrow> real option) \<Rightarrow> row list \<Rightarrow> schema \<Rightarrow> real \<Rightarrow> nat list" where
  "valid toNumber rows sch fr =
     filter (\<lambda>i. yLog toNumber rows sch fr ! i \<noteq> None) [0..<length (yLog toNumber rows sch fr)]"

definition tr :: "(string \<Rightarrow> real option) \<Rightarrow> row list \<Rightarrow> schema \<Rightarrow> real \<Rightarrow> nat list" where
  "tr toNumber rows sch fr =
     filter (\<lambda>i. i \<in> set (valid toNumber rows sch fr)) (trIdx rows sch fr)"

definition te :: "(string \<Rightarrow> real option) \<Rightarrow> row list \<Rightarrow> schema \<Rightarrow> real \<Rightarrow> nat list" where
  "te toNumber rows sch fr =
     filter (\<lambda>i. i \<in> set (valid toNumber rows sch fr)) (teIdx rows sch fr)"

text \<open>The local constant \<^verbatim>\<open>trainOrder\<close>; the seed of the same name is a field of the seeds.\<close>

definition trainOrder' :: "(string \<Rightarrow> real option) \<Rightarrow> row list \<Rightarrow> schema \<Rightarrow> real \<Rightarrow> nat list" where
  "trainOrder' toNumber rows sch fr =
     shuffleWithSeed (tr toNumber rows sch fr) (trainOrder (seedsOf sch))"

text \<open>
  The arrays handed to \<^verbatim>\<open>tf.tensor2d\<close>, and \<^verbatim>\<open>numStats\<close>. The tensors themselves are
  objects of TensorFlow.js, which is not code of the repository.
\<close>

record tensors =
  XnumTrainArr :: "real option list list"
  yTrainArr :: "real option list"
  XcatsTrainArrs :: "nat list list"
  XnumTestArr :: "real option list list"
  yTestArr :: "real option list"
  XcatsTestArrs :: "nat list list"
  numStats :: "stat list"

text \<open>
  The function returns the arrays and leaves \<^verbatim>\<open>schema.numInputDim\<close> written; both are
  the result here. \<^verbatim>\<open>XnumPlus[0].length\<close> throws a \<^verbatim>\<open>TypeError\<close> when there is no row.
\<close>

definition buildTabularTensors ::
  "(string \<Rightarrow> real option) \<Rightarrow> row list \<Rightarrow> schema \<Rightarrow> real \<Rightarrow> js_error + tensors \<times> schema" where
  "buildTabularTensors toNumber rows sch fr =
     (case Xcats rows sch of
        Inl e \<Rightarrow> Inl e
      | Inr xcats \<Rightarrow>
          if rows = [] then Inl TypeError
          else
            let xs = XnumScaled toNumber rows sch fr;
                y = yLog toNumber rows sch fr;
                ord = trainOrder' toNumber rows sch fr;
                tei = te toNumber rows sch fr
            in Inr (\<lparr>XnumTrainArr = map (\<lambda>i. xs ! i) ord,
                     yTrainArr = map (\<lambda>i. y ! i) ord,
                     XcatsTrainArrs = map (\<lambda>col. map (\<lambda>i. col ! i) ord) xcats,
                     XnumTestArr = map (\<lambda>i. xs ! i) tei,
                     yTestArr = map (\<lambda>i. y ! i) tei,
                     XcatsTestArrs = map (\<lambda>col. map (\<lambda>i. col ! i) tei) xcats,
                     numStats = stats toNumber rows sch fr\<rparr>,
                    sch\<lparr>numInputDim := Some (length (XnumPlus toNumber rows sch fr ! 0))\<rparr>))"

section \<open>\<^verbatim>\<open>parseCarsCSV\<close>\<close>







section \<open>The robust statistics in the specification's words\<close>



text \<open>
  Column \<open>j\<close> of \<^verbatim>\<open>trainNum\<close>, the array \<^verbatim>\<open>robustStats\<close> is fit on, and the finite values
  of the same column after scaling.
\<close>

definition trainCol :: "(string \<Rightarrow> real option) \<Rightarrow> row list \<Rightarrow> schema \<Rightarrow> real \<Rightarrow> nat \<Rightarrow> real list" where
  "trainCol toNumber rows sch fr j =
     map (\<lambda>i. XnumPlus toNumber rows sch fr ! i ! j) (trIdx rows sch fr)"


text \<open>
  In the specification's words: the training rows whose fold is not \<open>f\<close>, of category \<open>k\<close>
  in column \<open>c\<close>, with a finite raw target; and their raw targets.
\<close>

definition oofRows ::
  "(string \<Rightarrow> real option) \<Rightarrow> row list \<Rightarrow> schema \<Rightarrow> real \<Rightarrow> string \<Rightarrow> nat \<Rightarrow> string \<Rightarrow> nat list" where
  "oofRows toNumber rows sch fr c f k =
     filter (\<lambda>j. foldOf rows sch fr j \<noteq> Some f \<and> catKey (rows ! j) c = k
                 \<and> pricesRaw toNumber rows ! j \<noteq> None)
            (trIdx rows sch fr)"

definition oofPrices ::
  "(string \<Rightarrow> real option) \<Rightarrow> row list \<Rightarrow> schema \<Rightarrow> real \<Rightarrow> string \<Rightarrow> nat \<Rightarrow> string \<Rightarrow> real list" where
  "oofPrices toNumber rows sch fr c f k =
     finites (map (\<lambda>j. pricesRaw toNumber rows ! j) (oofRows toNumber rows sch fr c f k))"

section \<open>Example inputs\<close>

text \<open>
  An instance of \<open>toNumber\<close> for the examples: it reads a non-empty string of decimal
  digits, as \<^verbatim>\<open>Number\<close> does, and nothing else.
\<close>

definition digitOf :: "char \<Rightarrow> nat option" where
  "digitOf c = map_of [(CHR ''0'', 0), (CHR ''1'', 1), (CHR ''2'', 2), (CHR ''3'', 3), (CHR ''4'', 4),
                       (CHR ''5'', 5), (CHR ''6'', 6), (CHR ''7'', 7), (CHR ''8'', 8), (CHR ''9'', 9)] c"

fun decimalFrom :: "nat \<Rightarrow> string \<Rightarrow> real option" where
  "decimalFrom n [] = Some (real n)"
| "decimalFrom n (c # cs) =
     (case digitOf c of None \<Rightarrow> None | Some d \<Rightarrow> decimalFrom (10 * n + d) cs)"

definition decimal :: "string \<Rightarrow> real option" where
  "decimal s = (if s = [] then None else decimalFrom 0 s)"

definition mkRow :: "string \<Rightarrow> string \<Rightarrow> row" where
  "mkRow mk pr = [''make'' \<mapsto> mk, ''price'' \<mapsto> pr]"

text \<open>The six rows of the end-to-end scenario: make \<open>A\<close> four times, make \<open>B\<close> twice.\<close>

definition scenarioRows :: "row list" where
  "scenarioRows = [mkRow ''A'' ''10000'', mkRow ''A'' ''12000'', mkRow ''A'' ''11000'',
                   mkRow ''A'' ''9000'', mkRow ''B'' ''20000'', mkRow ''B'' ''21000'']"

definition scenarioSchema :: schema where
  "scenarioSchema =
     \<lparr>numCols = [], catCols = [''make''],
      catMaps = [''make'' \<mapsto> \<lparr>map' = [''__UNK__'' \<mapsto> 0, ''A'' \<mapsto> 1, ''B'' \<mapsto> 2], size' = 3\<rparr>],
      seeds = Some \<lparr>split = 42, kfold = 1337, trainOrder = 777\<rparr>,
      numInputDim = None\<rparr>"


definition scenarioSchemaX :: schema where
  "scenarioSchemaX = scenarioSchema\<lparr>numCols := [''x'']\<rparr>"

text \<open>Five rows whose test indices come back out of row order: makes \<open>A B A A B\<close>.\<close>

definition orderRows :: "row list" where
  "orderRows = [mkRow ''A'' ''10'', mkRow ''B'' ''20'', mkRow ''A'' ''30'', mkRow ''A'' ''40'',
                mkRow ''B'' ''50'']"


text \<open>The scenario with the price of row 1 changed from 12000 to 24000.\<close>

definition scenarioRowsB :: "row list" where
  "scenarioRowsB = [mkRow ''A'' ''10000'', mkRow ''A'' ''24000'', mkRow ''A'' ''11000'',
                    mkRow ''A'' ''9000'', mkRow ''B'' ''20000'', mkRow ''B'' ''21000'']"

text \<open>
  Two data sets of two rows of the same make, with a numeric column \<open>x\<close>: they differ in the
  \<open>x\<close> of row 0 only, and row 1 has no \<open>x\<close>.
\<close>

definition mkRowX :: "string \<Rightarrow> string \<Rightarrow> string \<Rightarrow> row" where
  "mkRowX mk x pr = [''make'' \<mapsto> mk, ''x'' \<mapsto> x, ''price'' \<mapsto> pr]"

definition leakRowsA :: "row list" where
  "leakRowsA = [mkRowX ''A'' ''1'' ''10'', mkRowX ''A'' ''?'' ''20'']"

definition leakRowsB :: "row list" where
  "leakRowsB = [mkRowX ''A'' ''5'' ''10'', mkRowX ''A'' ''?'' ''20'']"

text \<open>The scenario with the price of row 2, a test row, changed from 11000 to 99000.\<close>

definition scenarioRowsC :: "row list" where
  "scenarioRowsC = [mkRow ''A'' ''10000'', mkRow ''A'' ''12000'', mkRow ''A'' ''99000'',
                    mkRow ''A'' ''9000'', mkRow ''B'' ''20000'', mkRow ''B'' ''21000'']"




section \<open>Properties of the generator\<close>

text \<open>
  Claim C4. The state update is \<open>newState = (state * 1664525 + 1013904223) mod 2^32\<close> and
  the value drawn is \<open>newState / 2^32\<close>. From state 42 the first draw gives state
  1083814273 and value \<open>1083814273 / 4294967296\<close>; inside one permutation the second
  element's draw starts from the state the first draw left (1083814273, giving
  378494188), not from 42 again.
\<close>

theorem dsg_reference_vector:
  "unat (snd (rnd s)) = (unat s * 1664525 + 1013904223) mod 2 ^ 32
   \<and> fst (rnd s) = real (unat (snd (rnd s))) / 2 ^ 32
   \<and> rnd 42 = (1083814273 / 4294967296, 1083814273)
   \<and> drawKeys s (x # xs) = (fst (rnd s), x) # drawKeys (snd (rnd s)) xs
   \<and> drawKeys 42 [a, b] = [(1083814273 / 4294967296, a), (378494188 / 4294967296, b)]"
proof (intro conjI)
  show "unat (snd (rnd s)) = (unat s * 1664525 + 1013904223) mod 2 ^ 32"
    by (simp add: rnd_def Let_def unat_word_ariths mod_simps)
  show "fst (rnd s) = real (unat (snd (rnd s))) / 2 ^ 32"
    by (simp add: rnd_def Let_def)
  show "rnd 42 = (1083814273 / 4294967296, 1083814273)"
    by (simp add: rnd_def Let_def)
  show "drawKeys s (x # xs) = (fst (rnd s), x) # drawKeys (snd (rnd s)) xs"
    by (simp add: case_prod_beta)
  show "drawKeys 42 [a, b] = [(1083814273 / 4294967296, a), (378494188 / 4294967296, b)]"
    by (simp add: rnd_def Let_def)
qed

section \<open>The shuffle is a permutation\<close>

lemma map_snd_drawKeys: "map snd (drawKeys s xs) = xs"
  by (induction xs arbitrary: s) (auto split: prod.splits)

lemma mset_shuffleWithSeed: "mset (shuffleWithSeed xs s) = mset xs"
proof -
  have "mset (map snd (sort_key fst (drawKeys s xs))) = image_mset snd (mset (drawKeys s xs))"
    by simp
  also have "\<dots> = mset (map snd (drawKeys s xs))" by simp
  finally show ?thesis by (simp add: shuffleWithSeed_def map_snd_drawKeys)
qed

lemma length_shuffleWithSeed: "length (shuffleWithSeed xs s) = length xs"
  using mset_shuffleWithSeed [of xs s] by (metis size_mset)

lemma set_shuffleWithSeed: "set (shuffleWithSeed xs s) = set xs"
  using mset_shuffleWithSeed [of xs s] by (metis set_mset_mset)

lemma distinct_shuffleWithSeed: "distinct (shuffleWithSeed xs s) = distinct xs"
  using mset_shuffleWithSeed [of xs s] by (rule mset_eq_imp_distinct_iff)

section \<open>The stratification groups\<close>

lemma mset_groupPush:
  "mset (concat (map snd (groupPush k i gs))) = add_mset i (mset (concat (map snd gs)))"
  by (induction gs) auto





lemma foldl_groupPush_mset:
  "mset (concat (map snd (foldl (\<lambda>gs (i, r). groupPush (f r) i gs) gs zs)))
     = mset (concat (map snd gs)) + mset (map fst zs)"
  by (induction zs arbitrary: gs) (auto simp: mset_groupPush)





lemma mset_groupRows: "mset (concat (map snd (groupRows rows key))) = mset [0..<length rows]"
  unfolding groupRows_def by (simp add: foldl_groupPush_mset)





section \<open>The split is a partition of the row indices\<close>

lemma foldl_splitStep:
  "foldl (splitStep fr seed) acc gs =
     \<lparr>train = train acc @ concat (map (trainPart fr seed) gs),
      test = test acc @ concat (map (testPart fr seed) gs)\<rparr>"
  by (induction gs arbitrary: acc)
     (auto simp: splitStep_def Let_def trainPart_def testPart_def length_shuffleWithSeed)

lemma stratifiedSplit_parts:
  "train (stratifiedSplit rows fr seed key)
     = concat (map (trainPart fr seed) (map snd (groupRows rows key)))"
  "test (stratifiedSplit rows fr seed key)
     = concat (map (testPart fr seed) (map snd (groupRows rows key)))"
  by (simp_all add: stratifiedSplit_def foldl_splitStep)

lemma mset_parts: "mset (trainPart fr seed g) + mset (testPart fr seed g) = mset g"
  unfolding trainPart_def testPart_def
  by (metis append_take_drop_id mset_append mset_shuffleWithSeed)

lemma mset_concat_parts:
  "mset (concat (map (trainPart fr seed) gs)) + mset (concat (map (testPart fr seed) gs))
     = mset (concat gs)"
proof (induction gs)
  case Nil
  then show ?case by simp
next
  case (Cons g gs)
  have "mset (concat (map (trainPart fr seed) (g # gs)))
          + mset (concat (map (testPart fr seed) (g # gs)))
      = (mset (trainPart fr seed g) + mset (testPart fr seed g))
        + (mset (concat (map (trainPart fr seed) gs)) + mset (concat (map (testPart fr seed) gs)))"
    by (simp add: ac_simps)
  then show ?case by (simp add: Cons.IH mset_parts)
qed

lemma mset_stratifiedSplit:
  "mset (train (stratifiedSplit rows fr seed key) @ test (stratifiedSplit rows fr seed key))
     = mset [0..<length rows]"
  using mset_concat_parts [of fr seed "map snd (groupRows rows key)"]
  by (simp add: stratifiedSplit_parts mset_groupRows)


lemma set_stratifiedSplit:
  "set (train (stratifiedSplit rows fr seed key)) \<union> set (test (stratifiedSplit rows fr seed key))
     = {0..<length rows}"
proof -
  have "set (train (stratifiedSplit rows fr seed key) @ test (stratifiedSplit rows fr seed key))
      = set [0..<length rows]"
    using mset_stratifiedSplit [of rows fr seed key] by (rule mset_eq_setD)
  then show ?thesis by simp
qed

lemma cutOf_pos: "1 \<le> cutOf n fr"
  by (simp add: cutOf_def)


lemma scenario_groups: "groupRows scenarioRows ''make'' = [(''A'', [0, 1, 2, 3]), (''B'', [4, 5])]"
  by (simp add: groupRows_def scenarioRows_def mkRow_def catKey_def upt_conv_Cons)

lemma scenario_split:
  "stratifiedSplit scenarioRows (4 / 5) 42 ''make'' = \<lparr>train = [1, 3, 0, 5], test = [2, 4]\<rparr>"
  by (simp add: stratifiedSplit_def scenario_groups splitStep_def Let_def cutOf_def
      shuffleWithSeed_def rnd_def)



section \<open>Robust statistics\<close>












section \<open>Shapes of the intermediate arrays\<close>

lemma trIdx_subset: "set (trIdx rows sch fr) \<subseteq> {0..<length rows}"
  using set_stratifiedSplit [of rows fr "split (seedsOf sch)" "''make''"]
  by (auto simp: trIdx_def)

lemma teIdx_subset: "set (teIdx rows sch fr) \<subseteq> {0..<length rows}"
  using set_stratifiedSplit [of rows fr "split (seedsOf sch)" "''make''"]
  by (auto simp: teIdx_def)

lemma trainPart_nonempty: "g \<noteq> [] \<Longrightarrow> trainPart fr seed g \<noteq> []"
  using cutOf_pos [of "length g" fr]
  by (cases "shuffleWithSeed g seed")
     (use length_shuffleWithSeed [of g seed] in \<open>auto simp: trainPart_def\<close>)

lemma train_nonempty:
  assumes "rows \<noteq> []"
  shows "train (stratifiedSplit rows fr seed key) \<noteq> []"
proof -
  have "size (mset (concat (map snd (groupRows rows key)))) = size (mset [0..<length rows])"
    by (simp only: mset_groupRows)
  then have "length (concat (map snd (groupRows rows key))) = length rows"
    by (simp only: size_mset length_upt diff_zero)
  then have "concat (map snd (groupRows rows key)) \<noteq> []"
    using assms by (metis length_0_conv)
  then obtain g where g: "g \<in> set (map snd (groupRows rows key))" "g \<noteq> []"
    by (auto simp: concat_eq_Nil_conv)
  then have "trainPart fr seed g \<noteq> []" by (simp add: trainPart_nonempty)
  then show ?thesis using g(1) by (auto simp: stratifiedSplit_parts)
qed

lemma trIdx_nonempty: "rows \<noteq> [] \<Longrightarrow> trIdx rows sch fr \<noteq> []"
  by (simp add: trIdx_def train_nonempty)

lemma length_XnumPlus: "length (XnumPlus toNumber rows sch fr) = length rows"
  by (simp add: XnumPlus_def)

lemma length_Xnum_row:
  "i < length rows \<Longrightarrow> length (Xnum toNumber rows sch ! i) = length (numCols sch)"
  by (simp add: Xnum_def rawNum_def)

lemma XnumPlus_nth:
  "i < length rows \<Longrightarrow>
   XnumPlus toNumber rows sch fr ! i
     = Xnum toNumber rows sch ! i @ map (encValue toNumber rows sch fr i) encCols"
  by (simp add: XnumPlus_def)

lemma width_XnumPlus:
  "i < length rows \<Longrightarrow>
   length (XnumPlus toNumber rows sch fr ! i) = length (numCols sch) + length encCols"
  by (simp add: XnumPlus_nth length_Xnum_row)

lemma stats_nth:
  assumes "rows \<noteq> []" and "j < length (numCols sch) + length encCols"
  shows "stats toNumber rows sch fr ! j = robustStats (trainCol toNumber rows sch fr j)"
proof -
  have "0 < length rows" using assms(1) by simp
  then have "length (XnumPlus toNumber rows sch fr ! 0) = length (numCols sch) + length encCols"
    by (rule width_XnumPlus)
  then show ?thesis using assms(2) by (simp add: stats_def trainNum_def trainCol_def comp_def)
qed



section \<open>Robust scaling in the pipeline\<close>






lemma scenarioX_seeds: "seedsOf scenarioSchemaX = \<lparr>split = 42, kfold = 1337, trainOrder = 777\<rparr>"
  by (simp add: seedsOf_def scenarioSchemaX_def scenarioSchema_def)






section \<open>The result of \<^const>\<open>buildTabularTensors\<close>\<close>

lemma length_yLog: "length (yLog toNumber rows sch fr) = length rows"
  by (simp add: yLog_def pricesClipped_def pricesRaw_def)

lemma set_valid:
  "set (valid toNumber rows sch fr) = {i. i < length rows \<and> yLog toNumber rows sch fr ! i \<noteq> None}"
  by (auto simp: valid_def length_yLog)

lemma tr_filter:
  "tr toNumber rows sch fr
     = filter (\<lambda>i. yLog toNumber rows sch fr ! i \<noteq> None) (trIdx rows sch fr)"
  unfolding tr_def
  by (rule filter_cong [OF refl]) (use trIdx_subset [of rows sch fr] in \<open>auto simp: set_valid\<close>)

lemma te_filter:
  "te toNumber rows sch fr
     = filter (\<lambda>i. yLog toNumber rows sch fr ! i \<noteq> None) (teIdx rows sch fr)"
  unfolding te_def
  by (rule filter_cong [OF refl]) (use teIdx_subset [of rows sch fr] in \<open>auto simp: set_valid\<close>)

lemma set_trainOrder': "set (trainOrder' toNumber rows sch fr) = set (tr toNumber rows sch fr)"
  by (simp add: trainOrder'_def set_shuffleWithSeed)

lemma length_trainOrder': "length (trainOrder' toNumber rows sch fr) = length (tr toNumber rows sch fr)"
  by (simp add: trainOrder'_def length_shuffleWithSeed)

lemma length_XnumScaled: "length (XnumScaled toNumber rows sch fr) = length rows"
  by (simp add: XnumScaled_def length_XnumPlus)

lemma width_XnumScaled:
  "i < length rows \<Longrightarrow>
   length (XnumScaled toNumber rows sch fr ! i) = length (numCols sch) + length encCols"
  by (simp add: XnumScaled_def length_XnumPlus width_XnumPlus)

lemma Xcats_Inr:
  assumes "Xcats rows sch = Inr xcats"
  shows "length xcats = length (catCols sch)" and "\<forall>col \<in> set xcats. length col = length rows"
  using assms by (auto simp: Xcats_def split: if_splits)

lemma build_cases:
  assumes "buildTabularTensors toNumber rows sch fr = Inr (out, sch')"
  obtains xcats where "Xcats rows sch = Inr xcats" and "rows \<noteq> []"
    and "out = \<lparr>XnumTrainArr = map (\<lambda>i. XnumScaled toNumber rows sch fr ! i)
                                (trainOrder' toNumber rows sch fr),
                yTrainArr = map (\<lambda>i. yLog toNumber rows sch fr ! i) (trainOrder' toNumber rows sch fr),
                XcatsTrainArrs = map (\<lambda>col. map (\<lambda>i. col ! i) (trainOrder' toNumber rows sch fr)) xcats,
                XnumTestArr = map (\<lambda>i. XnumScaled toNumber rows sch fr ! i) (te toNumber rows sch fr),
                yTestArr = map (\<lambda>i. yLog toNumber rows sch fr ! i) (te toNumber rows sch fr),
                XcatsTestArrs = map (\<lambda>col. map (\<lambda>i. col ! i) (te toNumber rows sch fr)) xcats,
                numStats = stats toNumber rows sch fr\<rparr>"
    and "sch' = sch\<lparr>numInputDim := Some (length (XnumPlus toNumber rows sch fr ! 0))\<rparr>"
  using assms
  by (auto simp: buildTabularTensors_def Let_def split: sum.splits if_splits)

lemma build_Inr_iff:
  "(\<exists>r. buildTabularTensors toNumber rows sch fr = Inr r)
     \<longleftrightarrow> rows \<noteq> [] \<and> \<not> list_ex (\<lambda>h. catMaps sch h = None) (catCols sch)"
  by (auto simp: buildTabularTensors_def Xcats_def Let_def split: sum.splits if_splits)

text \<open>
  Claim C9. When the pipeline returns, in the training partition the numeric matrix has as
  many rows as the target vector has entries, and so has the code array of every
  categorical column, of which there is one per categorical column of the schema; the
  same holds in the test partition. The common length is the number of indices of the
  partition whose transformed target is finite, and every target in the output is
  finite: the other rows were dropped from both partitions.
\<close>

theorem row_count_consistency:
  assumes "buildTabularTensors toNumber rows sch fr = Inr (out, sch')"
  shows "length (XnumTrainArr out) = length (yTrainArr out)
       \<and> (\<forall>col \<in> set (XcatsTrainArrs out). length col = length (yTrainArr out))
       \<and> length (XcatsTrainArrs out) = length (catCols sch)
       \<and> length (XnumTestArr out) = length (yTestArr out)
       \<and> (\<forall>col \<in> set (XcatsTestArrs out). length col = length (yTestArr out))
       \<and> length (XcatsTestArrs out) = length (catCols sch)
       \<and> length (yTrainArr out)
           = length (filter (\<lambda>i. yLog toNumber rows sch fr ! i \<noteq> None) (trIdx rows sch fr))
       \<and> length (yTestArr out)
           = length (filter (\<lambda>i. yLog toNumber rows sch fr ! i \<noteq> None) (teIdx rows sch fr))
       \<and> (\<forall>y \<in> set (yTrainArr out) \<union> set (yTestArr out). y \<noteq> None)"
proof -
  from assms obtain xcats where x: "Xcats rows sch = Inr xcats"
    and out: "out = \<lparr>XnumTrainArr = map (\<lambda>i. XnumScaled toNumber rows sch fr ! i)
                                (trainOrder' toNumber rows sch fr),
                yTrainArr = map (\<lambda>i. yLog toNumber rows sch fr ! i) (trainOrder' toNumber rows sch fr),
                XcatsTrainArrs = map (\<lambda>col. map (\<lambda>i. col ! i) (trainOrder' toNumber rows sch fr)) xcats,
                XnumTestArr = map (\<lambda>i. XnumScaled toNumber rows sch fr ! i) (te toNumber rows sch fr),
                yTestArr = map (\<lambda>i. yLog toNumber rows sch fr ! i) (te toNumber rows sch fr),
                XcatsTestArrs = map (\<lambda>col. map (\<lambda>i. col ! i) (te toNumber rows sch fr)) xcats,
                numStats = stats toNumber rows sch fr\<rparr>"
    by (rule build_cases)
  have ytr: "\<forall>y \<in> set (yTrainArr out). y \<noteq> None"
    by (auto simp: out set_trainOrder' tr_filter)
  have yte: "\<forall>y \<in> set (yTestArr out). y \<noteq> None"
    by (auto simp: out te_filter)
  have 1: "length (XnumTrainArr out) = length (yTrainArr out)" by (simp add: out)
  have 2: "\<forall>col \<in> set (XcatsTrainArrs out). length col = length (yTrainArr out)"
    by (auto simp: out)
  have 3: "length (XcatsTrainArrs out) = length (catCols sch)"
    by (simp add: out Xcats_Inr(1) [OF x])
  have 4: "length (XnumTestArr out) = length (yTestArr out)" by (simp add: out)
  have 5: "\<forall>col \<in> set (XcatsTestArrs out). length col = length (yTestArr out)"
    by (auto simp: out)
  have 6: "length (XcatsTestArrs out) = length (catCols sch)"
    by (simp add: out Xcats_Inr(1) [OF x])
  have 7: "length (yTrainArr out)
           = length (filter (\<lambda>i. yLog toNumber rows sch fr ! i \<noteq> None) (trIdx rows sch fr))"
    by (simp add: out length_trainOrder' tr_filter)
  have 8: "length (yTestArr out)
           = length (filter (\<lambda>i. yLog toNumber rows sch fr ! i \<noteq> None) (teIdx rows sch fr))"
    by (simp add: out te_filter)
  have 9: "\<forall>y \<in> set (yTrainArr out) \<union> set (yTestArr out). y \<noteq> None"
    using ytr yte by blast
  from 1 2 3 4 5 6 7 8 9 show ?thesis by (intro conjI)
qed

section \<open>The end-to-end scenario, evaluated\<close>


lemma scenario_seeds: "seedsOf scenarioSchema = \<lparr>split = 42, kfold = 1337, trainOrder = 777\<rparr>"
  by (simp add: seedsOf_def scenarioSchema_def)

lemma scenario_trIdx: "trIdx scenarioRows scenarioSchema (4 / 5) = [1, 3, 0, 5]"
  by (simp add: trIdx_def scenario_seeds scenario_split)

lemma scenario_teIdx: "teIdx scenarioRows scenarioSchema (4 / 5) = [2, 4]"
  by (simp add: teIdx_def scenario_seeds scenario_split)

lemma scenario_decimal:
  "decimal ''10000'' = Some 10000" "decimal ''12000'' = Some 12000"
  "decimal ''11000'' = Some 11000" "decimal ''9000'' = Some 9000"
  "decimal ''20000'' = Some 20000" "decimal ''21000'' = Some 21000"
  by (simp_all add: decimal_def digitOf_def)

lemma scenario_pricesRaw:
  "pricesRaw decimal scenarioRows
     = [Some 10000, Some 12000, Some 11000, Some 9000, Some 20000, Some 21000]"
  by (simp add: pricesRaw_def scenarioRows_def mkRow_def numberOrNaN_def isNumeric_def
      scenario_decimal)

lemma scenario_trainPrices:
  "trainPrices decimal scenarioRows scenarioSchema (4 / 5) = [12000, 9000, 10000, 21000]"
  by (simp add: trainPrices_def scenario_trIdx scenario_pricesRaw)

lemma scenario_globalMean: "globalMean decimal scenarioRows scenarioSchema (4 / 5) = 13000"
  by (simp add: globalMean_def meanOf_def scenario_trainPrices)

lemma scenario_pLo: "pLo decimal scenarioRows scenarioSchema (4 / 5) = Some 9150"
  by (simp add: pLo_def scenario_trainPrices quantile_def Let_def)

lemma scenario_pHi: "pHi decimal scenarioRows scenarioSchema (4 / 5) = Some 19650"
  by (simp add: pHi_def scenario_trainPrices quantile_def Let_def)

lemma scenario_yLog:
  "yLog decimal scenarioRows scenarioSchema (4 / 5)
     = [Some (ln 10001), Some (ln 12001), Some (ln 11001), Some (ln 9151), Some (ln 19651),
        Some (ln 19651)]"
  by (simp add: yLog_def pricesClipped_def scenario_pricesRaw scenario_pLo scenario_pHi clip_def
      log1p_def)

lemma scenario_tr: "tr decimal scenarioRows scenarioSchema (4 / 5) = [1, 3, 0, 5]"
  by (simp add: tr_filter scenario_trIdx scenario_yLog)

lemma scenario_te: "te decimal scenarioRows scenarioSchema (4 / 5) = [2, 4]"
  by (simp add: te_filter scenario_teIdx scenario_yLog)

lemma scenario_trainOrder': "trainOrder' decimal scenarioRows scenarioSchema (4 / 5) = [5, 1, 3, 0]"
  by (simp add: trainOrder'_def scenario_tr scenario_seeds shuffleWithSeed_def rnd_def)

lemma scenario_Xcats: "Xcats scenarioRows scenarioSchema = Inr [[1, 1, 1, 1, 2, 2]]"
  by (simp add: Xcats_def scenarioSchema_def scenarioRows_def mkRow_def catKey_def)

lemma scenario_returns: "\<exists>r. buildTabularTensors decimal scenarioRows scenarioSchema (4 / 5) = Inr r"
proof -
  have "scenarioRows \<noteq> []
      \<and> \<not> list_ex (\<lambda>h. catMaps scenarioSchema h = None) (catCols scenarioSchema)"
    by (simp add: scenarioRows_def scenarioSchema_def)
  then show ?thesis by (rule build_Inr_iff [THEN iffD2])
qed

theorem row_count_consistency_witness:
  "\<exists>out sch'. buildTabularTensors decimal scenarioRows scenarioSchema (4 / 5) = Inr (out, sch')
     \<and> length (XnumTrainArr out) = 4 \<and> length (yTrainArr out) = 4
     \<and> map length (XcatsTrainArrs out) = [4]
     \<and> length (XnumTestArr out) = 2 \<and> length (yTestArr out) = 2
     \<and> map length (XcatsTestArrs out) = [2]"
proof -
  from scenario_returns obtain out sch'
    where b: "buildTabularTensors decimal scenarioRows scenarioSchema (4 / 5) = Inr (out, sch')"
    by force
  note rc = row_count_consistency [OF b]
  have ytr: "length (yTrainArr out) = 4"
    using rc by (simp add: scenario_trIdx scenario_yLog)
  have yte: "length (yTestArr out) = 2"
    using rc by (simp add: scenario_teIdx scenario_yLog)
  have xtr: "length (XnumTrainArr out) = 4" using rc ytr by simp
  have xte: "length (XnumTestArr out) = 2" using rc yte by simp
  have "length (XcatsTrainArrs out) = 1" using rc by (simp add: scenarioSchema_def)
  moreover have "\<forall>col \<in> set (XcatsTrainArrs out). length col = 4" using rc ytr by simp
  ultimately have ctr: "map length (XcatsTrainArrs out) = [4]"
    by (cases "XcatsTrainArrs out") auto
  have "length (XcatsTestArrs out) = 1" using rc by (simp add: scenarioSchema_def)
  moreover have "\<forall>col \<in> set (XcatsTestArrs out). length col = 2" using rc yte by simp
  ultimately have cte: "map length (XcatsTestArrs out) = [2]"
    by (cases "XcatsTestArrs out") auto
  from b xtr ytr ctr xte yte cte show ?thesis by (intro exI conjI)
qed

section \<open>Order of the output rows\<close>

lemma order_groups: "groupRows orderRows ''make'' = [(''A'', [0, 2, 3]), (''B'', [1, 4])]"
  by (simp add: groupRows_def orderRows_def mkRow_def catKey_def upt_conv_Cons)

lemma order_split:
  "stratifiedSplit orderRows (4 / 5) 42 ''make'' = \<lparr>train = [2, 0, 4], test = [3, 1]\<rparr>"
  by (simp add: stratifiedSplit_def order_groups splitStep_def Let_def cutOf_def
      shuffleWithSeed_def rnd_def)

lemma order_decimal:
  "decimal ''10'' = Some 10" "decimal ''20'' = Some 20" "decimal ''30'' = Some 30"
  "decimal ''40'' = Some 40" "decimal ''50'' = Some 50"
  by (simp_all add: decimal_def digitOf_def)

lemma order_pricesRaw:
  "pricesRaw decimal orderRows = [Some 10, Some 20, Some 30, Some 40, Some 50]"
  by (simp add: pricesRaw_def orderRows_def mkRow_def numberOrNaN_def isNumeric_def order_decimal)

lemma order_trIdx: "trIdx orderRows scenarioSchema (4 / 5) = [2, 0, 4]"
  by (simp add: trIdx_def scenario_seeds order_split)

lemma order_teIdx: "teIdx orderRows scenarioSchema (4 / 5) = [3, 1]"
  by (simp add: teIdx_def scenario_seeds order_split)

lemma order_trainPrices: "trainPrices decimal orderRows scenarioSchema (4 / 5) = [30, 10, 50]"
  by (simp add: trainPrices_def order_trIdx order_pricesRaw)

lemma order_pLo: "pLo decimal orderRows scenarioSchema (4 / 5) = Some 12"
  by (simp add: pLo_def order_trainPrices quantile_def Let_def)

lemma order_pHi: "pHi decimal orderRows scenarioSchema (4 / 5) = Some 48"
  by (simp add: pHi_def order_trainPrices quantile_def Let_def)

lemma order_yLog:
  "yLog decimal orderRows scenarioSchema (4 / 5)
     = [Some (ln 13), Some (ln 21), Some (ln 31), Some (ln 41), Some (ln 49)]"
  by (simp add: yLog_def pricesClipped_def order_pricesRaw order_pLo order_pHi clip_def log1p_def)

lemma order_te: "te decimal orderRows scenarioSchema (4 / 5) = [3, 1]"
  by (simp add: te_filter order_teIdx order_yLog)

lemma order_Xcats: "Xcats orderRows scenarioSchema = Inr [[1, 2, 1, 1, 2]]"
  by (simp add: Xcats_def scenarioSchema_def orderRows_def mkRow_def catKey_def)

lemma order_nonempty: "orderRows \<noteq> []"
  by (simp add: orderRows_def)

text \<open>
  Claim C7, as stated, fails on the second half. On the five rows with makes
  \<open>A B A A B\<close> and the default seeds, group \<open>A\<close> leaves row 3 to test and group \<open>B\<close>, visited
  after it, leaves row 1: the test arrays hold row 3 before row 1, so the code array of
  \<open>make\<close> reads \<open>[1, 2]\<close> (\<open>A\<close>, then \<open>B\<close>) where the row order would give \<open>[2, 1]\<close>.
\<close>

theorem test_order_counterexample:
  "te decimal orderRows scenarioSchema (4 / 5) = [3, 1]
   \<and> \<not> sorted (te decimal orderRows scenarioSchema (4 / 5))
   \<and> \<not> isl (buildTabularTensors decimal orderRows scenarioSchema (4 / 5))
   \<and> XcatsTestArrs (fst (projr (buildTabularTensors decimal orderRows scenarioSchema (4 / 5))))
       = [[1, 2]]"
  by (simp add: order_te buildTabularTensors_def order_Xcats order_nonempty Let_def)

text \<open>
  Claim C7, amended. When the pipeline returns, the training arrays follow one shuffle,
  with the seed \<open>trainOrder\<close>, of the training indices whose transformed target is finite.
  The test arrays follow the splitter's test list, restricted to the indices whose
  transformed target is finite, and nothing reorders it: group after group in the order
  in which the keys first appear, and inside a group the shuffled indices left over after
  the cut.
\<close>

theorem output_ordering:
  assumes "buildTabularTensors toNumber rows sch fr = Inr (out, sch')"
  shows "XnumTrainArr out
           = map (\<lambda>i. XnumScaled toNumber rows sch fr ! i)
                 (shuffleWithSeed (tr toNumber rows sch fr) (trainOrder (seedsOf sch)))
       \<and> yTrainArr out
           = map (\<lambda>i. yLog toNumber rows sch fr ! i)
                 (shuffleWithSeed (tr toNumber rows sch fr) (trainOrder (seedsOf sch)))
       \<and> XnumTestArr out = map (\<lambda>i. XnumScaled toNumber rows sch fr ! i) (te toNumber rows sch fr)
       \<and> yTestArr out = map (\<lambda>i. yLog toNumber rows sch fr ! i) (te toNumber rows sch fr)
       \<and> (\<exists>xcats. Xcats rows sch = Inr xcats
            \<and> XcatsTrainArrs out
                = map (\<lambda>col. map (\<lambda>i. col ! i)
                         (shuffleWithSeed (tr toNumber rows sch fr) (trainOrder (seedsOf sch))))
                      xcats
            \<and> XcatsTestArrs out = map (\<lambda>col. map (\<lambda>i. col ! i) (te toNumber rows sch fr)) xcats)
       \<and> tr toNumber rows sch fr
           = filter (\<lambda>i. yLog toNumber rows sch fr ! i \<noteq> None) (trIdx rows sch fr)
       \<and> te toNumber rows sch fr
           = filter (\<lambda>i. yLog toNumber rows sch fr ! i \<noteq> None)
               (concat (map (testPart fr (split (seedsOf sch))) (map snd (groupRows rows ''make''))))"
proof -
  from assms obtain xcats where x: "Xcats rows sch = Inr xcats"
    and out: "out = \<lparr>XnumTrainArr = map (\<lambda>i. XnumScaled toNumber rows sch fr ! i)
                                (trainOrder' toNumber rows sch fr),
                yTrainArr = map (\<lambda>i. yLog toNumber rows sch fr ! i) (trainOrder' toNumber rows sch fr),
                XcatsTrainArrs = map (\<lambda>col. map (\<lambda>i. col ! i) (trainOrder' toNumber rows sch fr)) xcats,
                XnumTestArr = map (\<lambda>i. XnumScaled toNumber rows sch fr ! i) (te toNumber rows sch fr),
                yTestArr = map (\<lambda>i. yLog toNumber rows sch fr ! i) (te toNumber rows sch fr),
                XcatsTestArrs = map (\<lambda>col. map (\<lambda>i. col ! i) (te toNumber rows sch fr)) xcats,
                numStats = stats toNumber rows sch fr\<rparr>"
    by (rule build_cases)
  have tei: "teIdx rows sch fr
      = concat (map (testPart fr (split (seedsOf sch))) (map snd (groupRows rows ''make'')))"
    by (simp add: teIdx_def stratifiedSplit_parts)
  show ?thesis
    using x by (simp add: out trainOrder'_def tr_filter te_filter tei)
qed

theorem output_ordering_witness:
  "\<exists>out sch'. buildTabularTensors decimal scenarioRows scenarioSchema (4 / 5) = Inr (out, sch')
     \<and> shuffleWithSeed (tr decimal scenarioRows scenarioSchema (4 / 5)) 777 = [5, 1, 3, 0]
     \<and> yTrainArr out = [Some (ln 19651), Some (ln 12001), Some (ln 9151), Some (ln 10001)]
     \<and> te decimal scenarioRows scenarioSchema (4 / 5) = [2, 4]
     \<and> yTestArr out = [Some (ln 11001), Some (ln 19651)]"
proof -
  from scenario_returns obtain out sch'
    where b: "buildTabularTensors decimal scenarioRows scenarioSchema (4 / 5) = Inr (out, sch')"
    by force
  note oo = output_ordering [OF b]
  have sh: "shuffleWithSeed (tr decimal scenarioRows scenarioSchema (4 / 5)) 777 = [5, 1, 3, 0]"
    using scenario_trainOrder' by (simp add: trainOrder'_def scenario_seeds)
  have ytr: "yTrainArr out = [Some (ln 19651), Some (ln 12001), Some (ln 9151), Some (ln 10001)]"
    using oo by (simp add: scenario_seeds sh scenario_yLog)
  have yte: "yTestArr out = [Some (ln 11001), Some (ln 19651)]"
    using oo by (simp add: scenario_te scenario_yLog)
  from b sh ytr scenario_te yte show ?thesis by (intro exI conjI)
qed

section \<open>The pipeline does not read \<^verbatim>\<open>numInputDim\<close>\<close>





























section \<open>The global training mean\<close>









section \<open>Target encoding\<close>

lemma teSums_snoc:
  "teSums rows prices c (idxs @ [i]) = teStep rows prices c (teSums rows prices c idxs) i"
  by (simp add: teSums_def)

lemma finites_append: "finites (xs @ ys) = finites xs @ finites ys"
  by (induction xs rule: finites.induct) auto

lemma length_finites_all_Some: "\<forall>x \<in> set xs. x \<noteq> None \<Longrightarrow> length (finites xs) = length xs"
  by (induction xs rule: finites.induct) auto

lemma teSums_char:
  "fst (teSums rows prices c idxs) k
     = (if filter (\<lambda>j. catKey (rows ! j) c = k \<and> prices ! j \<noteq> None) idxs = [] then None
        else Some (sum_list (finites (map (\<lambda>j. prices ! j)
                     (filter (\<lambda>j. catKey (rows ! j) c = k \<and> prices ! j \<noteq> None) idxs)))))
   \<and> snd (teSums rows prices c idxs) k
     = (if filter (\<lambda>j. catKey (rows ! j) c = k \<and> prices ! j \<noteq> None) idxs = [] then None
        else Some (length (filter (\<lambda>j. catKey (rows ! j) c = k \<and> prices ! j \<noteq> None) idxs)))"
proof (induction idxs rule: rev_induct)
  case Nil
  then show ?case by (simp add: teSums_def)
next
  case (snoc i idxs)
  obtain sm cn where acc: "teSums rows prices c idxs = (sm, cn)"
    by (cases "teSums rows prices c idxs")
  show ?case
  proof (cases "prices ! i")
    case None
    then show ?thesis using snoc.IH by (simp add: teSums_snoc teStep_def Let_def)
  next
    case (Some yv)
    show ?thesis
    proof (cases "catKey (rows ! i) c = k")
      case True
      then show ?thesis
        using snoc.IH Some
        by (simp add: teSums_snoc teStep_def Let_def acc finites_append split: if_splits)
    next
      case False
      then show ?thesis
        using snoc.IH Some
        by (simp add: teSums_snoc teStep_def Let_def acc)
    qed
  qed
qed

lemma teMap_char:
  "teMap gm (teSums rows prices c idxs) k
     = (if filter (\<lambda>j. catKey (rows ! j) c = k \<and> prices ! j \<noteq> None) idxs \<noteq> []
        then Some ((sum_list (finites (map (\<lambda>j. prices ! j)
                      (filter (\<lambda>j. catKey (rows ! j) c = k \<and> prices ! j \<noteq> None) idxs)))
                    + 10 * gm)
                   / (real (length (filter (\<lambda>j. catKey (rows ! j) c = k \<and> prices ! j \<noteq> None) idxs))
                      + 10))
        else if k = ''__UNK__'' then Some gm else None)"
proof -
  obtain sm cn where acc: "teSums rows prices c idxs = (sm, cn)"
    by (cases "teSums rows prices c idxs")
  from teSums_char [of rows prices c idxs k] show ?thesis
    by (simp add: acc teMap_def smoothed_def)
qed

lemma oofRows_filter:
  "filter (\<lambda>j. catKey (rows ! j) c = k \<and> pricesRaw toNumber rows ! j \<noteq> None)
          (filter (\<lambda>j. foldOf rows sch fr j \<noteq> Some f) (trIdx rows sch fr))
     = oofRows toNumber rows sch fr c f k"
  unfolding oofRows_def filter_filter by (rule filter_cong) auto

lemma encMapsByFold_char:
  "encMapsByFold toNumber rows sch fr c f k
     = (if oofRows toNumber rows sch fr c f k \<noteq> []
        then Some ((sum_list (oofPrices toNumber rows sch fr c f k)
                     + 10 * globalMean toNumber rows sch fr)
                   / (real (length (oofRows toNumber rows sch fr c f k)) + 10))
        else if k = ''__UNK__'' then Some (globalMean toNumber rows sch fr) else None)"
  unfolding encMapsByFold_def teMap_char oofRows_filter oofPrices_def by (rule refl)

lemma scenario_folds: "folds scenarioRows scenarioSchema (4 / 5) = [[5], [0], [3], [1], []]"
proof -
  have rep: "replicate 5 x = [x, x, x, x, x]" for x :: "nat list"
    by (simp add: numeral_eq_Suc)
  have sh: "shuffleWithSeed [1, 3, 0, 5::nat] 1337 = [5, 0, 3, 1]"
    by (simp add: shuffleWithSeed_def rnd_def)
  have dl: "deal [5, 0, 3, 1] = [[5], [0], [3], [1], []]"
    by (simp add: deal_def K_def upt_conv_Cons rep)
  show ?thesis
    by (simp only: folds_def scenario_trIdx scenario_seeds seed_set.simps sh dl)
qed

lemma foldMapOf_scenario:
  "foldMapOf [[5], [0], [3], [1], []] 0 = Some 1"
  "foldMapOf [[5], [0], [3], [1], []] (Suc 0) = Some 3"
  "foldMapOf [[5], [0], [3], [1], []] 2 = None"
  "foldMapOf [[5], [0], [3], [1], []] 3 = Some 2"
  "foldMapOf [[5], [0], [3], [1], []] 4 = None"
  "foldMapOf [[5], [0], [3], [1], []] 5 = Some 0"
  by (simp_all add: foldMapOf_def upt_conv_Cons)

lemma scenario_foldOf:
  "foldOf scenarioRows scenarioSchema (4 / 5) 0 = Some 1"
  "foldOf scenarioRows scenarioSchema (4 / 5) (Suc 0) = Some 3"
  "foldOf scenarioRows scenarioSchema (4 / 5) 2 = None"
  "foldOf scenarioRows scenarioSchema (4 / 5) 3 = Some 2"
  "foldOf scenarioRows scenarioSchema (4 / 5) 4 = None"
  "foldOf scenarioRows scenarioSchema (4 / 5) 5 = Some 0"
  by (simp_all only: foldOf_def scenario_folds foldMapOf_scenario)

lemma scenario_keys:
  "catKey (scenarioRows ! 0) ''make'' = ''A''"
  "catKey (scenarioRows ! Suc 0) ''make'' = ''A''"
  "catKey (scenarioRows ! 2) ''make'' = ''A''"
  "catKey (scenarioRows ! 3) ''make'' = ''A''"
  "catKey (scenarioRows ! 4) ''make'' = ''B''"
  "catKey (scenarioRows ! 5) ''make'' = ''B''"
  by (simp_all add: scenarioRows_def mkRow_def catKey_def)

lemma scenario_oofRows: "oofRows decimal scenarioRows scenarioSchema (4 / 5) ''make'' 3 ''A'' = [3, 0]"
  by (simp add: oofRows_def scenario_trIdx scenario_foldOf scenario_keys scenario_pricesRaw)

lemma scenario_encValue:
  "encValue decimal scenarioRows scenarioSchema (4 / 5) (Suc 0) ''make'' = 37250 / 3"
  by (simp add: encValue_def scenario_foldOf scenario_keys lookupOrUnk_def encMapsByFold_char
      scenario_oofRows oofPrices_def scenario_pricesRaw scenario_globalMean)

lemma scenarioB_groups: "groupRows scenarioRowsB ''make'' = [(''A'', [0, 1, 2, 3]), (''B'', [4, 5])]"
  by (simp add: groupRows_def scenarioRowsB_def mkRow_def catKey_def upt_conv_Cons)

lemma scenarioB_trIdx: "trIdx scenarioRowsB scenarioSchema (4 / 5) = [1, 3, 0, 5]"
proof -
  have "stratifiedSplit scenarioRowsB (4 / 5) 42 ''make''
      = stratifiedSplit scenarioRows (4 / 5) 42 ''make''"
    by (simp only: stratifiedSplit_def scenarioB_groups scenario_groups)
  then show ?thesis by (simp add: trIdx_def scenario_seeds scenario_split)
qed

lemma scenarioB_foldOf: "foldOf scenarioRowsB scenarioSchema (4 / 5) = foldOf scenarioRows scenarioSchema (4 / 5)"
  by (simp only: foldOf_def folds_def scenarioB_trIdx scenario_trIdx)

lemma scenarioB_pricesRaw:
  "pricesRaw decimal scenarioRowsB
     = [Some 10000, Some 24000, Some 11000, Some 9000, Some 20000, Some 21000]"
proof -
  have "decimal ''24000'' = Some 24000" by (simp add: decimal_def digitOf_def)
  then show ?thesis
    by (simp add: pricesRaw_def scenarioRowsB_def mkRow_def numberOrNaN_def isNumeric_def
        scenario_decimal)
qed

lemma scenarioB_globalMean: "globalMean decimal scenarioRowsB scenarioSchema (4 / 5) = 16000"
  by (simp add: globalMean_def meanOf_def trainPrices_def scenarioB_trIdx scenarioB_pricesRaw)

lemma scenarioB_keys:
  "catKey (scenarioRowsB ! 0) ''make'' = ''A''"
  "catKey (scenarioRowsB ! Suc 0) ''make'' = ''A''"
  "catKey (scenarioRowsB ! 3) ''make'' = ''A''"
  "catKey (scenarioRowsB ! 5) ''make'' = ''B''"
  by (simp_all add: scenarioRowsB_def mkRow_def catKey_def)

lemma scenarioB_oofRows: "oofRows decimal scenarioRowsB scenarioSchema (4 / 5) ''make'' 3 ''A'' = [3, 0]"
  by (simp add: oofRows_def scenarioB_trIdx scenarioB_foldOf scenario_foldOf scenarioB_keys
      scenarioB_pricesRaw)

lemma scenarioB_encValue:
  "encValue decimal scenarioRowsB scenarioSchema (4 / 5) (Suc 0) ''make'' = 44750 / 3"
  by (simp add: encValue_def scenarioB_foldOf scenario_foldOf scenarioB_keys lookupOrUnk_def
      encMapsByFold_char scenarioB_oofRows oofPrices_def scenarioB_pricesRaw scenarioB_globalMean)

text \<open>
  Claim C2, as stated, fails in its last clause. In the scenario row 1 is a training row
  of fold 3. Changing nothing but the price of row 1, from 12000 to 24000, leaves the
  split and the folds as they are and moves the encoded value of row 1 itself from
  \<open>37250/3\<close> to \<open>44750/3\<close>: the sum and the count of its category exclude it, the global
  mean in the smoothing formula does not.
\<close>

theorem own_target_counterexample:
  "scenarioRowsB = scenarioRows[1 := mkRow ''A'' ''24000'']
   \<and> trIdx scenarioRowsB scenarioSchema (4 / 5) = trIdx scenarioRows scenarioSchema (4 / 5)
   \<and> foldOf scenarioRowsB scenarioSchema (4 / 5) 1 = Some 3
   \<and> foldOf scenarioRows scenarioSchema (4 / 5) 1 = Some 3
   \<and> encValue decimal scenarioRows scenarioSchema (4 / 5) 1 ''make'' = 37250 / 3
   \<and> encValue decimal scenarioRowsB scenarioSchema (4 / 5) 1 ''make'' = 44750 / 3
   \<and> encValue decimal scenarioRows scenarioSchema (4 / 5) 1 ''make''
       \<noteq> encValue decimal scenarioRowsB scenarioSchema (4 / 5) 1 ''make''"
proof -
  have r: "scenarioRowsB = scenarioRows[1 := mkRow ''A'' ''24000'']"
    by (simp add: scenarioRowsB_def scenarioRows_def)
  have t: "trIdx scenarioRowsB scenarioSchema (4 / 5) = trIdx scenarioRows scenarioSchema (4 / 5)"
    by (simp only: scenarioB_trIdx scenario_trIdx)
  have f: "foldOf scenarioRows scenarioSchema (4 / 5) 1 = Some 3"
    using scenario_foldOf(2) by simp
  have fB: "foldOf scenarioRowsB scenarioSchema (4 / 5) 1 = Some 3"
    using f by (simp only: scenarioB_foldOf)
  have e: "encValue decimal scenarioRows scenarioSchema (4 / 5) 1 ''make'' = 37250 / 3"
    using scenario_encValue by simp
  have eB: "encValue decimal scenarioRowsB scenarioSchema (4 / 5) 1 ''make'' = 44750 / 3"
    using scenarioB_encValue by simp
  have ne: "encValue decimal scenarioRows scenarioSchema (4 / 5) 1 ''make''
       \<noteq> encValue decimal scenarioRowsB scenarioSchema (4 / 5) 1 ''make''"
    unfolding e eB by simp
  from r t fB f e eB ne show ?thesis by (intro conjI)
qed

text \<open>
  Claim C2, amended. For a training row \<open>i\<close> of fold \<open>f\<close> and any column \<open>c\<close>: the map of
  fold \<open>f\<close> is fit on the training rows whose fold is not \<open>f\<close>, so never on row \<open>i\<close>. A
  category with at least one such row of finite raw target has the entry
  \<open>(sum + 10 * globalMean) / (count + 10)\<close>, sum and count over those rows' raw targets;
  \<^verbatim>\<open>'__UNK__'\<close>, unless it is such a category itself, has the entry \<open>globalMean\<close>; no other
  key has an entry. The encoded value of row \<open>i\<close> is the entry of its category, and the
  \<^verbatim>\<open>'__UNK__'\<close> entry when its category has none. The target of row \<open>i\<close> is thus in no sum
  and no count behind its own encoded value; \<open>globalMean\<close>, the mean over all training
  rows, is the one term of the formula that depends on it.
\<close>

theorem out_of_fold_encoding:
  assumes "i \<in> set (trIdx rows sch fr)" and "foldOf rows sch fr i = Some f"
  shows "(\<forall>k. encMapsByFold toNumber rows sch fr c f k
             = (if oofRows toNumber rows sch fr c f k \<noteq> []
                then Some ((sum_list (oofPrices toNumber rows sch fr c f k)
                             + 10 * globalMean toNumber rows sch fr)
                           / (real (length (oofRows toNumber rows sch fr c f k)) + 10))
                else if k = ''__UNK__'' then Some (globalMean toNumber rows sch fr) else None))
       \<and> (\<forall>k. \<forall>j \<in> set (oofRows toNumber rows sch fr c f k).
             j \<in> set (trIdx rows sch fr) \<and> foldOf rows sch fr j \<noteq> Some f \<and> j \<noteq> i
             \<and> catKey (rows ! j) c = k)
       \<and> (\<forall>k. length (oofPrices toNumber rows sch fr c f k)
                 = length (oofRows toNumber rows sch fr c f k))
       \<and> encValue toNumber rows sch fr i c
           = (if oofRows toNumber rows sch fr c f (catKey (rows ! i) c) \<noteq> []
              then (sum_list (oofPrices toNumber rows sch fr c f (catKey (rows ! i) c))
                     + 10 * globalMean toNumber rows sch fr)
                   / (real (length (oofRows toNumber rows sch fr c f (catKey (rows ! i) c))) + 10)
              else if oofRows toNumber rows sch fr c f ''__UNK__'' \<noteq> []
              then (sum_list (oofPrices toNumber rows sch fr c f ''__UNK__'')
                     + 10 * globalMean toNumber rows sch fr)
                   / (real (length (oofRows toNumber rows sch fr c f ''__UNK__'')) + 10)
              else globalMean toNumber rows sch fr)"
proof (intro conjI allI ballI)
  fix k
  show "encMapsByFold toNumber rows sch fr c f k
             = (if oofRows toNumber rows sch fr c f k \<noteq> []
                then Some ((sum_list (oofPrices toNumber rows sch fr c f k)
                             + 10 * globalMean toNumber rows sch fr)
                           / (real (length (oofRows toNumber rows sch fr c f k)) + 10))
                else if k = ''__UNK__'' then Some (globalMean toNumber rows sch fr) else None)"
    by (rule encMapsByFold_char)
next
  fix k j assume "j \<in> set (oofRows toNumber rows sch fr c f k)"
  then show "j \<in> set (trIdx rows sch fr)" "foldOf rows sch fr j \<noteq> Some f" "j \<noteq> i"
    "catKey (rows ! j) c = k"
    using assms(2) by (auto simp: oofRows_def)
next
  fix k
  have "\<forall>x \<in> set (map (\<lambda>j. pricesRaw toNumber rows ! j) (oofRows toNumber rows sch fr c f k)).
      x \<noteq> None"
    by (simp add: oofRows_def)
  then show "length (oofPrices toNumber rows sch fr c f k)
                 = length (oofRows toNumber rows sch fr c f k)"
    unfolding oofPrices_def by (simp only: length_finites_all_Some length_map)
next
  show "encValue toNumber rows sch fr i c
           = (if oofRows toNumber rows sch fr c f (catKey (rows ! i) c) \<noteq> []
              then (sum_list (oofPrices toNumber rows sch fr c f (catKey (rows ! i) c))
                     + 10 * globalMean toNumber rows sch fr)
                   / (real (length (oofRows toNumber rows sch fr c f (catKey (rows ! i) c))) + 10)
              else if oofRows toNumber rows sch fr c f ''__UNK__'' \<noteq> []
              then (sum_list (oofPrices toNumber rows sch fr c f ''__UNK__'')
                     + 10 * globalMean toNumber rows sch fr)
                   / (real (length (oofRows toNumber rows sch fr c f ''__UNK__'')) + 10)
              else globalMean toNumber rows sch fr)"
    by (simp add: encValue_def assms(2) lookupOrUnk_def encMapsByFold_char Let_def)
qed

theorem out_of_fold_encoding_witness:
  "(1::nat) \<in> set (trIdx scenarioRows scenarioSchema (4 / 5))
   \<and> foldOf scenarioRows scenarioSchema (4 / 5) 1 = Some 3
   \<and> oofRows decimal scenarioRows scenarioSchema (4 / 5) ''make'' 3 ''A'' = [3, 0]
   \<and> oofPrices decimal scenarioRows scenarioSchema (4 / 5) ''make'' 3 ''A'' = [9000, 10000]
   \<and> globalMean decimal scenarioRows scenarioSchema (4 / 5) = 13000
   \<and> encMapsByFold decimal scenarioRows scenarioSchema (4 / 5) ''make'' 3 ''A''
       = Some ((9000 + 10000 + 10 * 13000) / (2 + 10))
   \<and> encMapsByFold decimal scenarioRows scenarioSchema (4 / 5) ''make'' 3 ''__UNK__'' = Some 13000
   \<and> encValue decimal scenarioRows scenarioSchema (4 / 5) 1 ''make''
       = (9000 + 10000 + 10 * 13000) / (2 + 10)"
proof -
  have h1: "Suc 0 \<in> set (trIdx scenarioRows scenarioSchema (4 / 5))"
    by (simp add: scenario_trIdx)
  have h2: "foldOf scenarioRows scenarioSchema (4 / 5) (Suc 0) = Some 3"
    by (rule scenario_foldOf)
  note oof = out_of_fold_encoding [OF h1 h2, of decimal "''make''"]
  have pr: "oofPrices decimal scenarioRows scenarioSchema (4 / 5) ''make'' 3 ''A'' = [9000, 10000]"
    by (simp add: oofPrices_def scenario_oofRows scenario_pricesRaw)
  have unk: "oofRows decimal scenarioRows scenarioSchema (4 / 5) ''make'' 3 ''__UNK__'' = []"
    by (simp add: oofRows_def scenario_trIdx scenario_foldOf scenario_keys)
  from oof have m: "encMapsByFold decimal scenarioRows scenarioSchema (4 / 5) ''make'' 3 k
             = (if oofRows decimal scenarioRows scenarioSchema (4 / 5) ''make'' 3 k \<noteq> []
                then Some ((sum_list (oofPrices decimal scenarioRows scenarioSchema (4 / 5) ''make'' 3 k)
                             + 10 * globalMean decimal scenarioRows scenarioSchema (4 / 5))
                           / (real (length (oofRows decimal scenarioRows scenarioSchema (4 / 5) ''make'' 3 k)) + 10))
                else if k = ''__UNK__'' then Some (globalMean decimal scenarioRows scenarioSchema (4 / 5))
                else None)" for k
    by blast
  have mA: "encMapsByFold decimal scenarioRows scenarioSchema (4 / 5) ''make'' 3 ''A''
       = Some ((9000 + 10000 + 10 * 13000) / (2 + 10))"
    by (simp add: m scenario_oofRows pr scenario_globalMean)
  have mU: "encMapsByFold decimal scenarioRows scenarioSchema (4 / 5) ''make'' 3 ''__UNK__'' = Some 13000"
    by (simp add: m unk scenario_globalMean)
  have ev: "encValue decimal scenarioRows scenarioSchema (4 / 5) (Suc 0) ''make''
       = (9000 + 10000 + 10 * 13000) / (2 + 10)"
    using oof by (simp add: scenario_keys scenario_oofRows pr scenario_globalMean)
  from h1 h2 scenario_oofRows pr scenario_globalMean mA mU ev show ?thesis by simp
qed

section \<open>What the fitted statistics read\<close>

lemma pricesRaw_nth:
  "i < length rows \<Longrightarrow> pricesRaw toNumber rows ! i = numberOrNaN toNumber ((rows ! i) ''price'')"
  by (simp add: pricesRaw_def)

lemma foldl_teStep_cong:
  assumes "\<forall>i \<in> set idxs. rows1 ! i = rows2 ! i \<and> prices1 ! i = prices2 ! i"
  shows "foldl (teStep rows1 prices1 c) acc idxs = foldl (teStep rows2 prices2 c) acc idxs"
  using assms
proof (induction idxs arbitrary: acc)
  case Nil
  then show ?case by simp
next
  case (Cons i idxs)
  have "teStep rows1 prices1 c acc i = teStep rows2 prices2 c acc i"
    using Cons.prems by (simp add: teStep_def)
  then show ?case using Cons by simp
qed

lemma teSums_cong:
  assumes "\<forall>i \<in> set idxs. rows1 ! i = rows2 ! i \<and> prices1 ! i = prices2 ! i"
  shows "teSums rows1 prices1 c idxs = teSums rows2 prices2 c idxs"
  unfolding teSums_def using assms by (rule foldl_teStep_cong)

lemma Xnum_nth:
  "i < length rows \<Longrightarrow>
   Xnum toNumber rows sch ! i
     = map (\<lambda>(j, x). case x of Some v \<Rightarrow> v | None \<Rightarrow> medians toNumber rows sch ! j)
           (zip [0..<length (numCols sch)]
                (map (\<lambda>h. numberOrNaN toNumber ((rows ! i) h)) (numCols sch)))"
  by (simp add: Xnum_def rawNum_def)

lemma train_agreement:
  assumes tr: "trIdx rows1 sch fr = trIdx rows2 sch fr"
    and ag: "\<forall>i \<in> set (trIdx rows1 sch fr). rows1 ! i = rows2 ! i"
  shows "\<forall>i \<in> set (trIdx rows1 sch fr).
           i < length rows1 \<and> i < length rows2
         \<and> pricesRaw toNumber rows1 ! i = pricesRaw toNumber rows2 ! i"
proof
  fix i assume i: "i \<in> set (trIdx rows1 sch fr)"
  then have l1: "i < length rows1" using trIdx_subset [of rows1 sch fr] by auto
  from i tr have "i \<in> set (trIdx rows2 sch fr)" by simp
  then have l2: "i < length rows2" using trIdx_subset [of rows2 sch fr] by auto
  from ag i have "rows1 ! i = rows2 ! i" by blast
  then show "i < length rows1 \<and> i < length rows2
         \<and> pricesRaw toNumber rows1 ! i = pricesRaw toNumber rows2 ! i"
    using l1 l2 by (simp add: pricesRaw_nth)
qed

lemma trainPrices_agree:
  assumes "trIdx rows1 sch fr = trIdx rows2 sch fr"
    and "\<forall>i \<in> set (trIdx rows1 sch fr). rows1 ! i = rows2 ! i"
  shows "trainPrices toNumber rows1 sch fr = trainPrices toNumber rows2 sch fr"
proof -
  have eq: "map (\<lambda>i. pricesRaw toNumber rows1 ! i) (trIdx rows1 sch fr)
      = map (\<lambda>i. pricesRaw toNumber rows2 ! i) (trIdx rows1 sch fr)"
    by (rule map_cong [OF refl]) (use train_agreement [OF assms] in blast)
  show ?thesis unfolding trainPrices_def assms(1) [symmetric] eq by (rule refl)
qed

lemma foldOf_agree:
  assumes "trIdx rows1 sch fr = trIdx rows2 sch fr"
  shows "foldOf rows1 sch fr = foldOf rows2 sch fr"
  by (simp add: foldOf_def folds_def assms)

lemma encMapsByFold_agree:
  assumes "trIdx rows1 sch fr = trIdx rows2 sch fr"
    and "\<forall>i \<in> set (trIdx rows1 sch fr). rows1 ! i = rows2 ! i"
  shows "encMapsByFold toNumber rows1 sch fr c f = encMapsByFold toNumber rows2 sch fr c f"
proof -
  have gm: "globalMean toNumber rows1 sch fr = globalMean toNumber rows2 sch fr"
    by (simp add: globalMean_def trainPrices_agree [OF assms])
  have "teSums rows1 (pricesRaw toNumber rows1) c
          (filter (\<lambda>i. foldOf rows2 sch fr i \<noteq> Some f) (trIdx rows1 sch fr))
      = teSums rows2 (pricesRaw toNumber rows2) c
          (filter (\<lambda>i. foldOf rows2 sch fr i \<noteq> Some f) (trIdx rows1 sch fr))"
    by (rule teSums_cong) (use train_agreement [OF assms] assms(2) in auto)
  then show ?thesis
    by (simp only: encMapsByFold_def gm foldOf_agree [OF assms(1)] assms(1) [symmetric])
qed

lemma fullMaps_agree:
  assumes "trIdx rows1 sch fr = trIdx rows2 sch fr"
    and "\<forall>i \<in> set (trIdx rows1 sch fr). rows1 ! i = rows2 ! i"
  shows "fullMaps toNumber rows1 sch fr c = fullMaps toNumber rows2 sch fr c"
proof -
  have gm: "globalMean toNumber rows1 sch fr = globalMean toNumber rows2 sch fr"
    by (simp add: globalMean_def trainPrices_agree [OF assms])
  have "teSums rows1 (pricesRaw toNumber rows1) c (trIdx rows1 sch fr)
      = teSums rows2 (pricesRaw toNumber rows2) c (trIdx rows1 sch fr)"
    by (rule teSums_cong) (use train_agreement [OF assms] assms(2) in auto)
  then show ?thesis
    by (simp only: fullMaps_def gm assms(1) [symmetric])
qed

lemma XnumPlus_agree:
  assumes "trIdx rows1 sch fr = trIdx rows2 sch fr"
    and "\<forall>i \<in> set (trIdx rows1 sch fr). rows1 ! i = rows2 ! i"
    and "medians toNumber rows1 sch = medians toNumber rows2 sch"
    and "i \<in> set (trIdx rows1 sch fr)"
  shows "XnumPlus toNumber rows1 sch fr ! i = XnumPlus toNumber rows2 sch fr ! i"
proof -
  from train_agreement [OF assms(1,2)] assms(4)
  have l1: "i < length rows1" and l2: "i < length rows2" by blast+
  from assms(2,4) have r: "rows1 ! i = rows2 ! i" by blast
  have x: "Xnum toNumber rows1 sch ! i = Xnum toNumber rows2 sch ! i"
    by (simp only: Xnum_nth [OF l1] Xnum_nth [OF l2] r assms(3))
  have e: "encValue toNumber rows1 sch fr i = encValue toNumber rows2 sch fr i"
    by (intro ext)
       (simp only: encValue_def r foldOf_agree [OF assms(1)]
          encMapsByFold_agree [OF assms(1,2)] fullMaps_agree [OF assms(1,2)])
  show ?thesis
    by (simp only: XnumPlus_nth [OF l1] XnumPlus_nth [OF l2] x e)
qed

lemma stats_agree:
  assumes "trIdx rows1 sch fr = trIdx rows2 sch fr"
    and "\<forall>i \<in> set (trIdx rows1 sch fr). rows1 ! i = rows2 ! i"
    and "medians toNumber rows1 sch = medians toNumber rows2 sch"
    and "rows1 \<noteq> []"
  shows "stats toNumber rows1 sch fr = stats toNumber rows2 sch fr"
proof -
  have t1: "trIdx rows1 sch fr \<noteq> []" using assms(4) by (rule trIdx_nonempty)
  then have "trIdx rows2 sch fr \<noteq> []" using assms(1) by simp
  then have ne2: "rows2 \<noteq> []" using trIdx_subset [of rows2 sch fr] by auto
  have w1: "length (XnumPlus toNumber rows1 sch fr ! 0) = length (numCols sch) + length encCols"
    using assms(4) by (simp add: width_XnumPlus)
  have w2: "length (XnumPlus toNumber rows2 sch fr ! 0) = length (numCols sch) + length encCols"
    using ne2 by (simp add: width_XnumPlus)
  have tn: "trainNum toNumber rows1 sch fr = trainNum toNumber rows2 sch fr"
    unfolding trainNum_def assms(1) [symmetric]
    by (rule map_cong [OF refl]) (rule XnumPlus_agree [OF assms(1,2,3)])
  show ?thesis by (simp only: stats_def w1 w2 tn)
qed

text \<open>
  Claim C1, as stated, fails for the imputation medians and, through them, for the scaling
  statistics. The two data sets below have the same split, train row 1 and test row 0,
  and the same train row; they differ in the \<open>x\<close> of the test row. The imputation median of
  \<open>x\<close> is read from every row, so it is 1 in one and 5 in the other; the train row has no
  \<open>x\<close> and is imputed with it, so the fitted median of the column differs likewise.
\<close>

theorem leakage_counterexample:
  "trIdx leakRowsA scenarioSchemaX (4 / 5) = [1] \<and> trIdx leakRowsB scenarioSchemaX (4 / 5) = [1]
   \<and> teIdx leakRowsA scenarioSchemaX (4 / 5) = [0] \<and> teIdx leakRowsB scenarioSchemaX (4 / 5) = [0]
   \<and> leakRowsA ! 1 = leakRowsB ! 1
   \<and> medians decimal leakRowsA scenarioSchemaX = [1]
   \<and> medians decimal leakRowsB scenarioSchemaX = [5]
   \<and> stats decimal leakRowsA scenarioSchemaX (4 / 5) ! 0 = \<lparr>median = Some 1, scale = 1\<rparr>
   \<and> stats decimal leakRowsB scenarioSchemaX (4 / 5) ! 0 = \<lparr>median = Some 5, scale = 1\<rparr>"
proof -
  have d: "decimal ''1'' = Some 1" "decimal ''5'' = Some 5"
    by (simp_all add: decimal_def digitOf_def)
  have gA: "groupRows leakRowsA ''make'' = [(''A'', [0, 1])]"
    by (simp add: groupRows_def leakRowsA_def mkRowX_def catKey_def upt_conv_Cons)
  have gB: "groupRows leakRowsB ''make'' = [(''A'', [0, 1])]"
    by (simp add: groupRows_def leakRowsB_def mkRowX_def catKey_def upt_conv_Cons)
  have sA: "stratifiedSplit leakRowsA (4 / 5) 42 ''make'' = \<lparr>train = [1], test = [0]\<rparr>"
    by (simp add: stratifiedSplit_def gA splitStep_def Let_def cutOf_def shuffleWithSeed_def rnd_def)
  have sB: "stratifiedSplit leakRowsB (4 / 5) 42 ''make'' = stratifiedSplit leakRowsA (4 / 5) 42 ''make''"
    by (simp only: stratifiedSplit_def gA gB)
  have trA: "trIdx leakRowsA scenarioSchemaX (4 / 5) = [1]"
    and teA: "teIdx leakRowsA scenarioSchemaX (4 / 5) = [0]"
    by (simp_all add: trIdx_def teIdx_def scenarioX_seeds sA)
  have trB: "trIdx leakRowsB scenarioSchemaX (4 / 5) = [1]"
    and teB: "teIdx leakRowsB scenarioSchemaX (4 / 5) = [0]"
    by (simp_all add: trIdx_def teIdx_def scenarioX_seeds sB sA)
  have same: "leakRowsA ! 1 = leakRowsB ! 1"
    by (simp add: leakRowsA_def leakRowsB_def)
  have nc: "numCols scenarioSchemaX = [''x'']"
    by (simp add: scenarioSchemaX_def scenarioSchema_def)
  have rA: "rawNum decimal leakRowsA scenarioSchemaX = [[Some 1], [None]]"
    by (simp add: rawNum_def nc leakRowsA_def mkRowX_def numberOrNaN_def isNumeric_def d)
  have rB: "rawNum decimal leakRowsB scenarioSchemaX = [[Some 5], [None]]"
    by (simp add: rawNum_def nc leakRowsB_def mkRowX_def numberOrNaN_def isNumeric_def d)
  have mA: "medians decimal leakRowsA scenarioSchemaX = [1]"
    by (simp add: medians_def nc rA medianOrZero_def)
  have mB: "medians decimal leakRowsB scenarioSchemaX = [5]"
    by (simp add: medians_def nc rB medianOrZero_def)
  have xA: "Xnum decimal leakRowsA scenarioSchemaX = [[1], [1]]"
    by (simp add: Xnum_def rA mA)
  have xB: "Xnum decimal leakRowsB scenarioSchemaX = [[5], [5]]"
    by (simp add: Xnum_def rB mB)
  have lA: "leakRowsA \<noteq> []" "Suc 0 < length leakRowsA" by (simp_all add: leakRowsA_def)
  have lB: "leakRowsB \<noteq> []" "Suc 0 < length leakRowsB" by (simp_all add: leakRowsB_def)
  have j: "0 < length (numCols scenarioSchemaX) + length encCols" by (simp add: nc)
  have cA: "trainCol decimal leakRowsA scenarioSchemaX (4 / 5) 0 = [1]"
    by (simp add: trainCol_def trA XnumPlus_nth [OF lA(2)] xA)
  have cB: "trainCol decimal leakRowsB scenarioSchemaX (4 / 5) 0 = [5]"
    by (simp add: trainCol_def trB XnumPlus_nth [OF lB(2)] xB)
  have stA: "stats decimal leakRowsA scenarioSchemaX (4 / 5) ! 0 = \<lparr>median = Some 1, scale = 1\<rparr>"
    by (simp add: stats_nth [OF lA(1) j] cA robustStats_def)
  have stB: "stats decimal leakRowsB scenarioSchemaX (4 / 5) ! 0 = \<lparr>median = Some 5, scale = 1\<rparr>"
    by (simp add: stats_nth [OF lB(1) j] cB robustStats_def)
  from trA trB teA teB same mA mB stA stB show ?thesis by (intro conjI)
qed

text \<open>
  Claim C1, amended. For two inputs with the same training index list that agree on the
  training rows: the winsorization bounds, the global mean, the fold assignment, every fold
  encoding map and every full map are identical, whatever the other rows hold. The
  imputation medians are fit on all rows; when they coincide as well, the scaling
  statistics of every column are identical.
\<close>

theorem train_only_statistics:
  assumes "trIdx rows1 sch fr = trIdx rows2 sch fr"
    and "\<forall>i \<in> set (trIdx rows1 sch fr). rows1 ! i = rows2 ! i"
  shows "trainPrices toNumber rows1 sch fr = trainPrices toNumber rows2 sch fr
       \<and> pLo toNumber rows1 sch fr = pLo toNumber rows2 sch fr
       \<and> pHi toNumber rows1 sch fr = pHi toNumber rows2 sch fr
       \<and> globalMean toNumber rows1 sch fr = globalMean toNumber rows2 sch fr
       \<and> foldOf rows1 sch fr = foldOf rows2 sch fr
       \<and> encMapsByFold toNumber rows1 sch fr = encMapsByFold toNumber rows2 sch fr
       \<and> fullMaps toNumber rows1 sch fr = fullMaps toNumber rows2 sch fr
       \<and> medians toNumber rows1 sch
           = map (\<lambda>j. medianOrZero (sort (finites (map (\<lambda>r. numberOrNaN toNumber (r (numCols sch ! j)))
                                                      rows1))))
                 [0..<length (numCols sch)]
       \<and> (rows1 \<noteq> [] \<and> medians toNumber rows1 sch = medians toNumber rows2 sch
            \<longrightarrow> stats toNumber rows1 sch fr = stats toNumber rows2 sch fr)"
proof -
  have tp: "trainPrices toNumber rows1 sch fr = trainPrices toNumber rows2 sch fr"
    by (rule trainPrices_agree [OF assms])
  have lo: "pLo toNumber rows1 sch fr = pLo toNumber rows2 sch fr" by (simp add: pLo_def tp)
  have hi: "pHi toNumber rows1 sch fr = pHi toNumber rows2 sch fr" by (simp add: pHi_def tp)
  have gm: "globalMean toNumber rows1 sch fr = globalMean toNumber rows2 sch fr"
    by (simp add: globalMean_def tp)
  have fo: "foldOf rows1 sch fr = foldOf rows2 sch fr" by (rule foldOf_agree [OF assms(1)])
  have em: "encMapsByFold toNumber rows1 sch fr = encMapsByFold toNumber rows2 sch fr"
    by (intro ext) (simp only: encMapsByFold_agree [OF assms])
  have fm: "fullMaps toNumber rows1 sch fr = fullMaps toNumber rows2 sch fr"
    by (intro ext) (simp only: fullMaps_agree [OF assms])
  have md: "medians toNumber rows1 sch
           = map (\<lambda>j. medianOrZero (sort (finites (map (\<lambda>r. numberOrNaN toNumber (r (numCols sch ! j)))
                                                      rows1))))
                 [0..<length (numCols sch)]"
    unfolding medians_def rawNum_def
    by (rule map_cong [OF refl]) (simp add: comp_def)
  have st: "rows1 \<noteq> [] \<and> medians toNumber rows1 sch = medians toNumber rows2 sch
            \<longrightarrow> stats toNumber rows1 sch fr = stats toNumber rows2 sch fr"
    using stats_agree [OF assms] by blast
  from tp lo hi gm fo em fm md st show ?thesis by (intro conjI)
qed

lemma scenarioC_groups: "groupRows scenarioRowsC ''make'' = [(''A'', [0, 1, 2, 3]), (''B'', [4, 5])]"
  by (simp add: groupRows_def scenarioRowsC_def mkRow_def catKey_def upt_conv_Cons)

lemma scenarioC_trIdx: "trIdx scenarioRowsC scenarioSchema (4 / 5) = [1, 3, 0, 5]"
proof -
  have "stratifiedSplit scenarioRowsC (4 / 5) 42 ''make''
      = stratifiedSplit scenarioRows (4 / 5) 42 ''make''"
    by (simp only: stratifiedSplit_def scenarioC_groups scenario_groups)
  then show ?thesis by (simp add: trIdx_def scenario_seeds scenario_split)
qed

theorem train_only_statistics_witness:
  "trIdx scenarioRows scenarioSchema (4 / 5) = [1, 3, 0, 5]
   \<and> trIdx scenarioRowsC scenarioSchema (4 / 5) = [1, 3, 0, 5]
   \<and> (scenarioRows ! 2) ''price'' = Some ''11000''
   \<and> (scenarioRowsC ! 2) ''price'' = Some ''99000''
   \<and> pLo decimal scenarioRowsC scenarioSchema (4 / 5) = Some 9150
   \<and> pHi decimal scenarioRowsC scenarioSchema (4 / 5) = Some 19650
   \<and> globalMean decimal scenarioRowsC scenarioSchema (4 / 5) = 13000
   \<and> stats decimal scenarioRowsC scenarioSchema (4 / 5)
       = stats decimal scenarioRows scenarioSchema (4 / 5)"
proof -
  have h1: "trIdx scenarioRows scenarioSchema (4 / 5) = trIdx scenarioRowsC scenarioSchema (4 / 5)"
    by (simp only: scenario_trIdx scenarioC_trIdx)
  have h2: "\<forall>i \<in> set (trIdx scenarioRows scenarioSchema (4 / 5)). scenarioRows ! i = scenarioRowsC ! i"
    unfolding scenario_trIdx by (simp add: scenarioRows_def scenarioRowsC_def)
  note tos = train_only_statistics [OF h1 h2, of decimal]
  have ne: "scenarioRows \<noteq> []" by (simp add: scenarioRows_def)
  have md: "medians decimal scenarioRows scenarioSchema = medians decimal scenarioRowsC scenarioSchema"
    by (simp add: medians_def scenarioSchema_def)
  have st: "stats decimal scenarioRowsC scenarioSchema (4 / 5)
       = stats decimal scenarioRows scenarioSchema (4 / 5)"
    using tos ne md by simp
  have lo: "pLo decimal scenarioRowsC scenarioSchema (4 / 5) = Some 9150"
    using tos scenario_pLo by simp
  have hi: "pHi decimal scenarioRowsC scenarioSchema (4 / 5) = Some 19650"
    using tos scenario_pHi by simp
  have gm: "globalMean decimal scenarioRowsC scenarioSchema (4 / 5) = 13000"
    using tos scenario_globalMean by simp
  have p: "(scenarioRows ! 2) ''price'' = Some ''11000''"
    by (simp add: scenarioRows_def mkRow_def)
  have pC: "(scenarioRowsC ! 2) ''price'' = Some ''99000''"
    by (simp add: scenarioRowsC_def mkRow_def)
  from scenario_trIdx scenarioC_trIdx p pC lo hi gm st show ?thesis by (intro conjI)
qed

section \<open>Failures of the pipeline\<close>













end
